theory Spec2Isabelle
  imports Complex_Main
begin

section \<open>Python values shared by the models\<close>

text \<open>
  Python floats are modelled as real numbers, Python ints as \<open>int\<close>. Every raise of the
  source is a value of \<open>error\<close>; a function that may raise returns \<open>error + 'a\<close>.
\<close>

datatype error =
    IndexError
  | ZeroDivisionError
  | ValueError
  | RuntimeError
  | AssertionError
  | UnboundLocalError
  | FileNotFoundError
  | UncaughtException
  | NameError
  | OverflowError
  | SystemExit int

definition bindE :: "'e + 'a \<Rightarrow> ('a \<Rightarrow> 'e + 'b) \<Rightarrow> 'e + 'b" where
  "bindE m f = (case m of Inl e \<Rightarrow> Inl e | Inr x \<Rightarrow> f x)"

text \<open>Indexing a sequence with a Python int: a negative index counts from the end.\<close>

definition py_index :: "'a list \<Rightarrow> int \<Rightarrow> error + 'a" where
  "py_index xs i =
     (if 0 \<le> i \<and> i < int (length xs) then Inr (xs ! nat i)
      else if i < 0 \<and> - int (length xs) \<le> i then Inr (xs ! nat (int (length xs) + i))
      else Inl IndexError)"

text \<open>\<open>int(x)\<close> of a float truncates towards zero.\<close>

definition py_int :: "real \<Rightarrow> int" where
  "py_int x = (if 0 \<le> x then \<lfloor>x\<rfloor> else \<lceil>x\<rceil>)"

subsection \<open>Double precision\<close>

text \<open>
  A Python float is an IEEE 754 double. A finite double is kept as the real number it
  is; \<open>fl x\<close> is the double nearest to the real \<open>x\<close>, ties going to the even significand,
  with 53 significant bits and gradual underflow below \<open>2 ^ - 1022\<close>. The exponent is
  not bounded above here: where the source can overflow, the operation tests
  \<open>2 ^ 1024 \<le> \<bar>fl x\<bar>\<close>, which is when the double result is infinite. The basic operations
  and the square root of the machine are the exact result rounded by \<open>fl\<close>, and a decimal
  literal of the source is \<open>fl\<close> of its decimal value.
\<close>

definition round_even :: "real \<Rightarrow> int" where
  "round_even x =
     (let f = \<lfloor>x\<rfloor> in
      if x - of_int f < 1 / 2 then f
      else if 1 / 2 < x - of_int f then f + 1
      else if even f then f else f + 1)"

definition binade :: "real \<Rightarrow> int" where
  "binade x = max (- 1022) \<lfloor>log 2 \<bar>x\<bar>\<rfloor>"

definition fl :: "real \<Rightarrow> real" where
  "fl x = of_int (round_even (x / power_int 2 (binade x - 52))) * power_int 2 (binade x - 52)"

text \<open>
  \<open>int(t / dt)\<close>: the float division raises when the divisor is zero; its quotient is
  rounded; \<open>int\<close> of an infinite quotient raises \<open>OverflowError\<close>.
\<close>

definition step_number :: "real \<Rightarrow> real \<Rightarrow> error + int" where
  "step_number t dt =
     (if dt = 0 then Inl ZeroDivisionError
      else let q = fl (t / dt) in
        if 2 ^ 1024 \<le> \<bar>q\<bar> then Inl OverflowError else Inr (py_int q))"


section \<open>avf.py: the pressure expression \<open>InnerP\<close>\<close>

record InnerP =
  ip_t :: real
  ip_dt :: real
  ip_interp_P :: "real list"
  ip_number :: int
  ip_p_t_ramp_start :: real
  ip_p_t_ramp_end :: real

definition InnerP_init :: "real \<Rightarrow> real \<Rightarrow> real \<Rightarrow> real \<Rightarrow> real list \<Rightarrow> error + InnerP" where
  "InnerP_init t dt p_t_ramp_start p_t_ramp_end interp_P =
     bindE (step_number t dt) (\<lambda>k.
       Inr \<lparr> ip_t = t, ip_dt = dt, ip_interp_P = interp_P, ip_number = k,
             ip_p_t_ramp_start = p_t_ramp_start, ip_p_t_ramp_end = p_t_ramp_end \<rparr>)"

definition InnerP_update :: "InnerP \<Rightarrow> real \<Rightarrow> error + InnerP" where
  "InnerP_update self t =
     (let self = self\<lparr>ip_t := t\<rparr>
      in if ip_number self + 1 < int (length (ip_interp_P self))
         then bindE (step_number (ip_t self) (ip_dt self)) (\<lambda>k. Inr (self\<lparr>ip_number := k\<rparr>))
         else Inr self)"

definition InnerP_eval :: "InnerP \<Rightarrow> error + real" where
  "InnerP_eval self =
     (if ip_t self < ip_p_t_ramp_start self then Inr 0
      else if ip_t self < ip_p_t_ramp_end self then
        bindE (py_index (ip_interp_P self) (ip_number self)) (\<lambda>p.
          Inr (p * (- 0.5 * cos ((pi / (ip_p_t_ramp_end self - ip_p_t_ramp_start self))
                                   * (ip_t self - ip_p_t_ramp_start self)) + 0.5)))
      else py_index (ip_interp_P self) (ip_number self))"

section \<open>avf.py: the inlet velocity expressions \<open>VelIn1Para\<close> and \<open>VelIn2Para\<close>\<close>

text \<open>
  The constructor receives the facet normal \<open>n\<close> and the surface measure \<open>dsi\<close>; the
  finite-element assembly is outside this file, so the model takes its three results as
  arguments: the area \<open>A = assemble(1 * dsi)\<close> and the first moments
  \<open>assemble(x[i] * dsi)\<close>. The mesh is three-dimensional (\<open>eval\<close> reads the components
  0, 1 and 2), so vectors are triples. The area is an integral of 1 and so not negative;
  for \<open>A = 0\<close> the division that computes the barycenter raises.
\<close>

type_synonym vec3 = "real \<times> real \<times> real"

record VelIn1Para =
  v1_t :: real
  v1_dt :: real
  v1_t_ramp :: real
  v1_interp_PA :: "real list"
  v1_number :: int
  v1_n :: vec3
  v1_A :: real
  v1_c :: vec3
  v1_r :: real

definition VelIn1Para_init ::
  "real \<Rightarrow> real \<Rightarrow> real \<Rightarrow> vec3 \<Rightarrow> real \<Rightarrow> vec3 \<Rightarrow> real list \<Rightarrow> error + VelIn1Para" where
  "VelIn1Para_init t dt vel_t_ramp n A moments interp_PA =
     bindE (step_number t dt) (\<lambda>k.
       if A = 0 then Inl ZeroDivisionError
       else (case moments of (m0, m1, m2) \<Rightarrow>
         Inr \<lparr> v1_t = t, v1_dt = dt, v1_t_ramp = vel_t_ramp, v1_interp_PA = interp_PA,
               v1_number = k, v1_n = n, v1_A = A, v1_c = (m0 / A, m1 / A, m2 / A),
               v1_r = sqrt (A / pi) \<rparr>))"

definition VelIn1Para_update :: "VelIn1Para \<Rightarrow> real \<Rightarrow> error + VelIn1Para" where
  "VelIn1Para_update self t =
     (let self = self\<lparr>v1_t := t\<rparr>
      in if v1_number self + 1 < int (length (v1_interp_PA self))
         then bindE (step_number (v1_t self) (v1_dt self)) (\<lambda>k. Inr (self\<lparr>v1_number := k\<rparr>))
         else Inr self)"

definition VelIn1Para_eval :: "VelIn1Para \<Rightarrow> vec3 \<Rightarrow> error + vec3" where
  "VelIn1Para_eval self x =
     (case (x, v1_c self, v1_n self) of ((x0, x1, x2), (c0, c1, c2), (n0, n1, n2)) \<Rightarrow>
        let r2 = (x0 - c0)\<^sup>2 + (x1 - c1)\<^sup>2 + (x2 - c2)\<^sup>2;
            fact_r = 1 - (r2 / (v1_r self)\<^sup>2)
        in if v1_t self < v1_t_ramp self \<and> v1_t_ramp self > 0 then
             bindE (py_index (v1_interp_PA self) (v1_number self)) (\<lambda>p.
               let fact = p * (- 0.5 * cos ((pi / v1_t_ramp self) * v1_t self) + 0.5)
               in Inr (- n0 * fact_r * fact, - n1 * fact_r * fact, - n2 * fact_r * fact))
           else
             bindE (py_index (v1_interp_PA self) (v1_number self)) (\<lambda>p.
               Inr (- n0 * p * fact_r, - n1 * p * fact_r, - n2 * p * fact_r)))"

record VelIn2Para =
  v2_t :: real
  v2_dt :: real
  v2_t_ramp :: real
  v2_interp_DA :: "real list"
  v2_number :: int
  v2_n :: vec3
  v2_A :: real
  v2_c :: vec3
  v2_r :: real

definition VelIn2Para_init ::
  "real \<Rightarrow> real \<Rightarrow> real \<Rightarrow> vec3 \<Rightarrow> real \<Rightarrow> vec3 \<Rightarrow> real list \<Rightarrow> error + VelIn2Para" where
  "VelIn2Para_init t dt vel_t_ramp n A moments interp_DA =
     bindE (step_number t dt) (\<lambda>k.
       if A = 0 then Inl ZeroDivisionError
       else (case moments of (m0, m1, m2) \<Rightarrow>
         Inr \<lparr> v2_t = t, v2_dt = dt, v2_t_ramp = vel_t_ramp, v2_interp_DA = interp_DA,
               v2_number = k, v2_n = n, v2_A = A, v2_c = (m0 / A, m1 / A, m2 / A),
               v2_r = sqrt (A / pi) \<rparr>))"

definition VelIn2Para_update :: "VelIn2Para \<Rightarrow> real \<Rightarrow> error + VelIn2Para" where
  "VelIn2Para_update self t =
     (let self = self\<lparr>v2_t := t\<rparr>
      in if v2_number self + 1 < int (length (v2_interp_DA self))
         then bindE (step_number (v2_t self) (v2_dt self)) (\<lambda>k. Inr (self\<lparr>v2_number := k\<rparr>))
         else Inr self)"

definition VelIn2Para_eval :: "VelIn2Para \<Rightarrow> vec3 \<Rightarrow> error + vec3" where
  "VelIn2Para_eval self x =
     (case (x, v2_c self, v2_n self) of ((x0, x1, x2), (c0, c1, c2), (n0, n1, n2)) \<Rightarrow>
        let r2 = (x0 - c0)\<^sup>2 + (x1 - c1)\<^sup>2 + (x2 - c2)\<^sup>2;
            fact_r = 1 - (r2 / (v2_r self)\<^sup>2)
        in if v2_t self < v2_t_ramp self \<and> v2_t_ramp self > 0 then
             bindE (py_index (v2_interp_DA self) (v2_number self)) (\<lambda>p.
               let fact = p * (- 0.5 * cos ((pi / v2_t_ramp self) * v2_t self) + 0.5)
               in Inr (- n0 * fact_r * fact, - n1 * fact_r * fact, - n2 * fact_r * fact))
           else
             bindE (py_index (v2_interp_DA self) (v2_number self)) (\<lambda>p.
               Inr (- n0 * p * fact_r, - n1 * p * fact_r, - n2 * p * fact_r)))"

subsection \<open>\<open>pre_solve\<close>: the three expressions are updated with the same time\<close>

type_synonym bc_exprs = "VelIn1Para \<times> VelIn2Para \<times> InnerP"

definition pre_solve :: "real \<Rightarrow> bc_exprs \<Rightarrow> error + bc_exprs" where
  "pre_solve t e =
     (case e of (u_inflow_exp1, u_inflow_exp2, p_out_bc_val) \<Rightarrow>
        bindE (VelIn1Para_update u_inflow_exp1 t) (\<lambda>u1.
        bindE (VelIn2Para_update u_inflow_exp2 t) (\<lambda>u2.
        bindE (InnerP_update p_out_bc_val t) (\<lambda>p.
          Inr (u1, u2, p)))))"

text \<open>
  The stored index of an expression is usable when it is a valid Python index of the
  waveform: not below minus its length, and below its length.
\<close>

definition valid_index :: "int \<Rightarrow> 'a list \<Rightarrow> bool" where
  "valid_index k xs = (- int (length xs) \<le> k \<and> k < int (length xs))"

definition index_ok :: "bc_exprs \<Rightarrow> bool" where
  "index_ok e =
     (case e of (u1, u2, p) \<Rightarrow>
        valid_index (v1_number u1) (v1_interp_PA u1)
      \<and> valid_index (v2_number u2) (v2_interp_DA u2)
      \<and> valid_index (ip_number p) (ip_interp_P p))"

text \<open>
  A time is paced for an expression when the \<open>int(t / dt)\<close> that \<open>update\<close> computes, where
  it computes one, is at most one step past the stored index and not below minus the
  length of the waveform.
\<close>

definition paced_for :: "real \<Rightarrow> real \<Rightarrow> int \<Rightarrow> 'a list \<Rightarrow> bool" where
  "paced_for t dt number interp =
     (case step_number t dt of
        Inr k \<Rightarrow> - int (length interp) \<le> k \<and> k \<le> number + 1
      | Inl err \<Rightarrow> True)"

definition paced :: "real \<Rightarrow> bc_exprs \<Rightarrow> bool" where
  "paced t e =
     (case e of (u1, u2, p) \<Rightarrow>
        paced_for t (v1_dt u1) (v1_number u1) (v1_interp_PA u1)
      \<and> paced_for t (v2_dt u2) (v2_number u2) (v2_interp_DA u2)
      \<and> paced_for t (ip_dt p) (ip_number p) (ip_interp_P p))"

text \<open>The states a simulation reaches from \<open>e0\<close> by paced calls of \<open>pre_solve\<close>.\<close>

inductive simulation :: "bc_exprs \<Rightarrow> bc_exprs \<Rightarrow> bool" for e0 :: bc_exprs where
  sim_start: "simulation e0 e0"
| sim_step: "simulation e0 e \<Longrightarrow> paced t e \<Longrightarrow> pre_solve t e = Inr e' \<Longrightarrow> simulation e0 e'"

subsection \<open>The profile as the specification words it\<close>

text \<open>
  The specification's ramp factor \<open>s(t)\<close>, written from its words: the sigmoid for
  \<open>0 \<le> t < vel_t_ramp\<close> with \<open>vel_t_ramp > 0\<close>, and 1 otherwise.
\<close>

definition claimed_ramp :: "real \<Rightarrow> real \<Rightarrow> real" where
  "claimed_ramp t vel_t_ramp =
     (if 0 \<le> t \<and> t < vel_t_ramp \<and> vel_t_ramp > 0
      then - 0.5 * cos (pi * t / vel_t_ramp) + 0.5 else 1)"

text \<open>The squared distance \<open>r\<^sup>2\<close> of two points, and a vector times a scalar.\<close>

definition dist2 :: "vec3 \<Rightarrow> vec3 \<Rightarrow> real" where
  "dist2 x c =
     (case (x, c) of ((x0, x1, x2), (c0, c1, c2)) \<Rightarrow> (x0 - c0)\<^sup>2 + (x1 - c1)\<^sup>2 + (x2 - c2)\<^sup>2)"

definition scale3 :: "real \<Rightarrow> vec3 \<Rightarrow> vec3" where
  "scale3 k n = (case n of (n0, n1, n2) \<Rightarrow> (k * n0, k * n1, k * n2))"

subsection \<open>Concrete expressions\<close>

text \<open>
  An inlet of area \<open>\<pi>\<close> (radius 1) centred at the origin with normal \<open>(1, 0, 0)\<close>, a
  waveform of three samples and time step 1, at time \<open>t\<close> with ramp time \<open>vel_t_ramp\<close>.
\<close>

definition example_VelIn1Para :: "real \<Rightarrow> real \<Rightarrow> int \<Rightarrow> VelIn1Para" where
  "example_VelIn1Para t vel_t_ramp k =
     \<lparr> v1_t = t, v1_dt = 1, v1_t_ramp = vel_t_ramp, v1_interp_PA = [1, 2, 3],
       v1_number = k, v1_n = (1, 0, 0), v1_A = pi, v1_c = (0, 0, 0), v1_r = 1 \<rparr>"

definition example_VelIn2Para :: "real \<Rightarrow> real \<Rightarrow> int \<Rightarrow> VelIn2Para" where
  "example_VelIn2Para t vel_t_ramp k =
     \<lparr> v2_t = t, v2_dt = 1, v2_t_ramp = vel_t_ramp, v2_interp_DA = [4, 5, 6],
       v2_number = k, v2_n = (0, 1, 0), v2_A = pi, v2_c = (0, 0, 0), v2_r = 1 \<rparr>"

definition example_InnerP :: "real \<Rightarrow> int \<Rightarrow> InnerP" where
  "example_InnerP t k =
     \<lparr> ip_t = t, ip_dt = 1, ip_interp_P = [7, 8, 9], ip_number = k,
       ip_p_t_ramp_start = 1, ip_p_t_ramp_end = 3 \<rparr>"

text \<open>A pressure expression whose ramp start 3 lies after its ramp end 1, at the time 2.\<close>

definition reversed_InnerP :: InnerP where
  "reversed_InnerP =
     \<lparr> ip_t = 2, ip_dt = 1, ip_interp_P = [5, 8, 13], ip_number = 1,
       ip_p_t_ramp_start = 3, ip_p_t_ramp_end = 1 \<rparr>"

definition example_exprs :: "real \<Rightarrow> int \<Rightarrow> bc_exprs" where
  "example_exprs t k = (example_VelIn1Para t 2 k, example_VelIn2Para t 2 k, example_InnerP t k)"

section \<open>avf.py: \<open>get_mesh_domain_and_boundaries\<close>\<close>















section \<open>create_spectrogram_from_components.py\<close>

text \<open>
  A two-dimensional numpy array of floats: its number of columns and its rows, each row
  of that length.
\<close>

record ndarray =
  ncols :: nat
  arr_rows :: "real list list"

definition nrows :: "ndarray \<Rightarrow> nat" where
  "nrows a = length (arr_rows a)"

definition rectangular :: "ndarray \<Rightarrow> bool" where
  "rectangular a = list_all (\<lambda>r. length r = ncols a) (arr_rows a)"

text \<open>\<open>a[:, 0]\<close>: the first column; it raises when the array has no column.\<close>

definition first_column :: "ndarray \<Rightarrow> error + real list" where
  "first_column a = (if ncols a = 0 then Inl IndexError else Inr (map (\<lambda>r. r ! 0) (arr_rows a)))"

text \<open>\<open>a[:, 1:]\<close>: the columns from 1 onward; a slice never raises.\<close>

definition columns_from_1 :: "ndarray \<Rightarrow> ndarray" where
  "columns_from_1 a = \<lparr> ncols = ncols a - 1, arr_rows = map (drop 1) (arr_rows a) \<rparr>"

text \<open>
  \<open>a + b\<close> broadcasts: along each axis the two sizes are equal or one of them is 1, and
  the array of size 1 is repeated; other sizes raise \<open>ValueError\<close>.
\<close>

definition broadcast_size :: "nat \<Rightarrow> nat \<Rightarrow> error + nat" where
  "broadcast_size m n =
     (if m = n then Inr m else if m = 1 then Inr n else if n = 1 then Inr m else Inl ValueError)"

definition broadcast_index :: "nat \<Rightarrow> nat \<Rightarrow> nat" where
  "broadcast_index n i = (if n = 1 then 0 else i)"

definition np_add :: "ndarray \<Rightarrow> ndarray \<Rightarrow> error + ndarray" where
  "np_add a b =
     bindE (broadcast_size (nrows a) (nrows b)) (\<lambda>r.
     bindE (broadcast_size (ncols a) (ncols b)) (\<lambda>c.
       Inr \<lparr> ncols = c,
             arr_rows = map (\<lambda>i. map (\<lambda>j.
                 arr_rows a ! broadcast_index (nrows a) i ! broadcast_index (ncols a) j
               + arr_rows b ! broadcast_index (nrows b) i ! broadcast_index (ncols b) j)
               [0..<c]) [0..<r] \<rparr>))"

definition np_divide :: "ndarray \<Rightarrow> real \<Rightarrow> ndarray" where
  "np_divide a k = a\<lparr>arr_rows := map (map (\<lambda>v. v / k)) (arr_rows a)\<rparr>"

text \<open>
  \<open>np.loadtxt(file, delimiter=",")\<close> on the data rows of a file (comment lines and blank
  lines are skipped): rows of different lengths raise \<open>ValueError\<close>; the result has the
  axes of length one removed, so a file with one data row or one column gives a
  one-dimensional array, a file with a single number a zero-dimensional one, and a file
  with no data the empty one-dimensional array.
\<close>

datatype loaded = Array0 real | Array1 "real list" | Array2 ndarray

definition loadtxt :: "real list list \<Rightarrow> error + loaded" where
  "loadtxt lines =
     (let rows = filter (\<lambda>r. r \<noteq> []) lines in
      if rows = [] then Inr (Array1 [])
      else if \<not> list_all (\<lambda>r. length r = length (hd rows)) rows then Inl ValueError
      else if length rows = 1 \<and> length (hd rows) = 1 then Inr (Array0 (hd (hd rows)))
      else if length rows = 1 then Inr (Array1 (hd rows))
      else if length (hd rows) = 1 then Inr (Array1 (map hd rows))
      else Inr (Array2 \<lparr> ncols = length (hd rows), arr_rows = rows \<rparr>))"

text \<open>\<open>a[:, 0]\<close> and \<open>a[:, 1:]\<close> index two axes: too many for an array of fewer dimensions.\<close>

definition index_first_column :: "loaded \<Rightarrow> error + real list" where
  "index_first_column a = (case a of Array2 m \<Rightarrow> first_column m | _ \<Rightarrow> Inl IndexError)"

definition index_columns_from_1 :: "loaded \<Rightarrow> error + ndarray" where
  "index_columns_from_1 a = (case a of Array2 m \<Rightarrow> Inr (columns_from_1 m) | _ \<Rightarrow> Inl IndexError)"

text \<open>
  \<open>create_spectrogram_composite\<close> from the bins of the header and the data rows of the
  three files on, up to its call of \<open>plot_spectrogram\<close>: the bins, the frequencies, the
  power matrix and \<open>ylim\<close> it hands over. \<open>ylim\<close> is a global of the script, bound only
  when the file runs as the main program; reading it unbound raises \<open>NameError\<close>.
\<close>

record plot_call =
  pc_bins :: "real list"
  pc_freqs :: "real list"
  pc_Pxx :: ndarray
  pc_ylim :: real

definition create_spectrogram_composite ::
  "real option \<Rightarrow> real list \<Rightarrow> real list list \<Rightarrow> real list list \<Rightarrow> real list list
     \<Rightarrow> error + plot_call" where
  "create_spectrogram_composite ylim bins x_lines y_lines z_lines =
     bindE (loadtxt x_lines) (\<lambda>csv_x_data.
     bindE (loadtxt y_lines) (\<lambda>csv_y_data.
     bindE (loadtxt z_lines) (\<lambda>csv_z_data.
     bindE (index_first_column csv_x_data) (\<lambda>freqs.
     bindE (index_columns_from_1 csv_x_data) (\<lambda>x1.
     bindE (index_columns_from_1 csv_y_data) (\<lambda>y1.
     bindE (np_add x1 y1) (\<lambda>xy.
     bindE (index_columns_from_1 csv_z_data) (\<lambda>z1.
     bindE (np_add xy z1) (\<lambda>xyz.
       let Pxx = np_divide xyz 3 in
       case ylim of
         None \<Rightarrow> Inl NameError
       | Some l \<Rightarrow> Inr \<lparr> pc_bins = bins, pc_freqs = freqs, pc_Pxx = Pxx, pc_ylim = l \<rparr>)))))))))"

definition example_csv :: "real \<Rightarrow> ndarray" where
  "example_csv k = \<lparr> ncols = 3, arr_rows = [[10, k, 2 * k], [20, 3 * k, 4 * k]] \<rparr>"

section \<open>separate_domain.py\<close>

text \<open>
  The arrays \<open>separate_domain\<close> reads from the mesh file with h5py: one domain marker for
  each cell, the cells as rows of node indices, and the node coordinates as rows. Node
  indices and markers are read from unsigned HDF5 datasets.
\<close>

record h5_mesh =
  domains_values :: "nat list"
  domain_topology :: "nat list list"
  domain_coordinates :: "vec3 list"

text \<open>\<open>(a == v).nonzero()\<close>: the positions of \<open>a\<close> that hold \<open>v\<close>, ascending.\<close>

definition nonzero_eq :: "nat list \<Rightarrow> nat \<Rightarrow> nat list" where
  "nonzero_eq a v = filter (\<lambda>i. a ! i = v) [0..<length a]"

text \<open>\<open>a[idx, :]\<close> with an index array: the rows at these positions; a position past the end raises.\<close>

definition take_rows :: "'a list \<Rightarrow> nat list \<Rightarrow> error + 'a list" where
  "take_rows a idx =
     (if list_all (\<lambda>i. i < length a) idx then Inr (map (\<lambda>i. a ! i) idx) else Inl IndexError)"

text \<open>\<open>np.unique\<close> of an array of rows: the values that occur, ascending, each once.\<close>

definition np_unique :: "nat list list \<Rightarrow> nat list" where
  "np_unique a = sorted_list_of_set (set (concat a))"

text \<open>\<open>np.where(a == v, k, a)\<close>.\<close>

definition np_where_eq :: "nat list list \<Rightarrow> nat \<Rightarrow> nat \<Rightarrow> nat list list" where
  "np_where_eq a v k = map (map (\<lambda>e. if e = v then k else e)) a"

text \<open>
  The body of the second loop of \<open>separate_domain\<close> for one domain, up to the arrays it
  writes into \<open>mesh/coordinates\<close> and \<open>mesh/topology\<close> of the domain's file. Indexing
  with the tuple that \<open>nonzero\<close> returns gives the selected cells under one more leading
  axis of length 1, which h5py drops when it writes; the model leaves that axis out.
\<close>

definition fix_topology :: "nat list \<Rightarrow> nat list list \<Rightarrow> nat list list" where
  "fix_topology domain_of_interest_ids domain_of_interest_topology =
     fold (\<lambda>node_id topology. np_where_eq topology (domain_of_interest_ids ! node_id) node_id)
       [0..<length domain_of_interest_ids] domain_of_interest_topology"

definition domain_of_interest :: "h5_mesh \<Rightarrow> nat \<Rightarrow> error + vec3 list \<times> nat list list" where
  "domain_of_interest vectorData domain_id =
     (let domain_of_interest_index = nonzero_eq (domains_values vectorData) domain_id in
      bindE (take_rows (domain_topology vectorData) domain_of_interest_index)
        (\<lambda>domain_of_interest_topology.
      let domain_of_interest_ids = np_unique domain_of_interest_topology in
      bindE (take_rows (domain_coordinates vectorData) domain_of_interest_ids)
        (\<lambda>domain_of_interest_coordinates.
      Inr (domain_of_interest_coordinates,
           fix_topology domain_of_interest_ids domain_of_interest_topology))))"

text \<open>
  \<open>separate_domain\<close>: the files it leaves, as a map from file name to the coordinates and
  topology written. The mesh path is given by its stem; \<open>with_name\<close> keeps the directory.
\<close>

definition separate_domain ::
  "string \<Rightarrow> h5_mesh \<Rightarrow> nat \<Rightarrow> nat \<Rightarrow> error + (string \<rightharpoonup> vec3 list \<times> nat list list)" where
  "separate_domain mesh_stem vectorData fluid_domain_id solid_domain_id =
     bindE (domain_of_interest vectorData fluid_domain_id) (\<lambda>fluid.
     bindE (domain_of_interest vectorData solid_domain_id) (\<lambda>solid.
       Inr ((Map.empty(mesh_stem @ ''_fluid.h5'' \<mapsto> fluid))(mesh_stem @ ''_solid.h5'' \<mapsto> solid))))"

text \<open>
  A mesh of three cells on six nodes; the cells 0 and 2 are fluid (marker 5) and use the
  nodes 1, 2, 4, 5; the cell 1 is solid (marker 7).
\<close>

definition example_h5_mesh :: h5_mesh where
  "example_h5_mesh =
     \<lparr> domains_values = [5, 7, 5],
       domain_topology = [[4, 1, 2, 5], [0, 1, 2, 3], [2, 5, 4, 1]],
       domain_coordinates = [(0, 0, 0), (1, 0, 0), (2, 0, 0), (3, 0, 0), (4, 0, 0), (5, 0, 0)] \<rparr>"

text \<open>
  The specification's description of the result, written from its words. The cells of a
  domain are the cells whose marker is the domain id, in file order; its nodes are the
  node ids these cells use; the rank of a node id is the number of the domain's node ids
  below it, so the \<open>i\<close>-th smallest has rank \<open>i\<close>.
\<close>

definition cells_of :: "h5_mesh \<Rightarrow> nat \<Rightarrow> nat list list" where
  "cells_of m d =
     map (\<lambda>i. domain_topology m ! i)
       (filter (\<lambda>i. domains_values m ! i = d) [0..<length (domains_values m)])"

definition nodes_of :: "h5_mesh \<Rightarrow> nat \<Rightarrow> nat set" where
  "nodes_of m d = set (concat (cells_of m d))"

definition rank_in :: "nat set \<Rightarrow> nat \<Rightarrow> nat" where
  "rank_in N v = card {u \<in> N. u < v}"

definition renumbered :: "h5_mesh \<Rightarrow> nat \<Rightarrow> vec3 list \<times> nat list list \<Rightarrow> bool" where
  "renumbered m d out =
     (case out of (coordinates, topology) \<Rightarrow>
        topology = map (map (rank_in (nodes_of m d))) (cells_of m d)
      \<and> length coordinates = card (nodes_of m d)
      \<and> (\<forall>v \<in> nodes_of m d. coordinates ! rank_in (nodes_of m d) v = domain_coordinates m ! v)
      \<and> bij_betw (rank_in (nodes_of m d)) (nodes_of m d) {0..<card (nodes_of m d)}
      \<and> (\<forall>v \<in> nodes_of m d. \<forall>w \<in> nodes_of m d.
            v < w \<longleftrightarrow> rank_in (nodes_of m d) v < rank_in (nodes_of m d) w))"

section \<open>automated_preprocessing.py: \<open>run_pre_processing\<close>\<close>

subsection \<open>Values, files and events\<close>

text \<open>
  The surfaces, centerlines and meshes that the vascular-modelling libraries compute are
  kept as terms: \<open>Obj f args\<close> is what the library function \<open>f\<close> returns on \<open>args\<close>.
  A file holds such a value. What a library call reports to the control flow of
  \<open>run_pre_processing\<close> (a surface is closed, a triangle is NaN, the mesher raises) comes
  from an environment. A library call that raises ends the run with that exception;
  apart from \<open>generate_mesh\<close>, whose \<open>RuntimeError\<close> the code catches, the model takes
  every library call to return, so it has every completed run of the code.
\<close>

datatype obj = Obj string "obj list" | Num real | Str string | PyNone

text \<open>
  The run is recorded as a trace of events, each tagged with the step of the function it
  belongs to, in the order of the source: loading, clipping, cleaning, capping,
  centerlines, smoothing, flow extensions, capping of the extended surface, centerlines
  of the extended surface, distance field, mesh generation, mesh conversion, network,
  boundary ids, visualisation, simulation, removal of files.
\<close>

datatype step =
    Load | Clip | Clean | Cap | Centerlines | Smooth | FlowExt | CapExt | CenterlinesExt
  | DistField | MeshGen | Convert | Network | BoundaryIDs | Visualize | Simulate | Cleanup

datatype action = Call string "obj list" | Read string | Write string | Remove string

type_synonym event = "step \<times> action"

fun step_rank :: "step \<Rightarrow> nat" where
  "step_rank Load = 0"
| "step_rank Clip = 1"
| "step_rank Clean = 2"
| "step_rank Cap = 3"
| "step_rank Centerlines = 4"
| "step_rank Smooth = 5"
| "step_rank FlowExt = 6"
| "step_rank CapExt = 7"
| "step_rank CenterlinesExt = 8"
| "step_rank DistField = 9"
| "step_rank MeshGen = 10"
| "step_rank Convert = 11"
| "step_rank Network = 12"
| "step_rank BoundaryIDs = 13"
| "step_rank Visualize = 14"
| "step_rank Simulate = 15"
| "step_rank Cleanup = 16"

text \<open>What \<open>generate_mesh\<close> does on one call.\<close>

datatype gm_outcome = Returns obj obj | Raises_RuntimeError | Raises_other

record env =
  check_if_closed_surface :: "obj \<Rightarrow> bool"
  find_and_delete_nan_triangles :: "obj \<Rightarrow> bool"
  outlets_found :: "obj \<Rightarrow> bool"
  outlets_unchanged :: "obj \<Rightarrow> obj \<Rightarrow> bool"
  number_of_regions :: nat
  generate_mesh :: "nat \<Rightarrow> obj \<Rightarrow> gm_outcome"
  GetNumberOfPoints :: "obj \<Rightarrow> int"

text \<open>
  The arguments of \<open>run_pre_processing\<close> that decide its control flow. The arguments that
  are only handed on to library calls (smoothing factor and iterations, coarsening
  factor, sublayer numbers, edge length, region points, HDF5 scale factor, flow rate
  factor, the five mesh ids, \<open>no_solid\<close>, \<open>verbose_print\<close>) are not represented.
\<close>

record params =
  input_model :: string
  smoothing_method :: string
  meshing_method :: string
  refine_region :: bool
  has_multiple_inlets :: bool
  add_flow_extensions :: bool
  visualize :: bool
  config_path :: "string option"
  compress_mesh :: bool
  scale_factor :: "real option"
  remove_all :: bool
  solid_thickness :: string
  mesh_format :: string
  mesh_generation_retries :: int

text \<open>
  The state: the file system, the trace, the number of calls of \<open>generate_mesh\<close> so far,
  the arguments the function assigns to, and its local variables. \<open>distance_to_sphere\<close>
  is the one local that a branch can leave unbound.
\<close>

record pp =
  fs :: "string \<rightharpoonup> obj"
  trace :: "event list"
  gm_calls :: nat
  resampling_step :: real
  meshing_parameters :: "real list"
  solid_thickness_parameters :: "real list"
  inlet_flow_extension_length :: real
  outlet_flow_extension_length :: real
  surface :: obj
  capped_surface :: obj
  centerlines :: obj
  inlet :: obj
  outlets :: obj
  has_outlet :: bool
  region_centerlines :: obj
  region_center :: "obj list"
  misr_max :: "obj list"
  surface_extended :: obj
  distance_to_sphere :: "obj option"
  mesh :: obj
  parameters :: "string list"
  file_name_xml_mesh :: string

definition emit :: "step \<Rightarrow> action \<Rightarrow> pp \<Rightarrow> pp" where
  "emit g act s = s\<lparr>trace := trace s @ [(g, act)]\<rparr>"

definition isfile :: "pp \<Rightarrow> string \<Rightarrow> bool" where
  "isfile s p = (fs s p \<noteq> None)"

text \<open>A run that raises or exits ends with the error and the state it leaves.\<close>

type_synonym 'a result = "(error \<times> pp) + 'a"

definition read_polydata :: "step \<Rightarrow> string \<Rightarrow> pp \<Rightarrow> (obj \<times> pp) result" where
  "read_polydata g p s =
     (case fs s p of None \<Rightarrow> Inl (FileNotFoundError, s) | Some v \<Rightarrow> Inr (v, emit g (Read p) s))"

definition write_polydata :: "step \<Rightarrow> obj \<Rightarrow> string \<Rightarrow> pp \<Rightarrow> pp" where
  "write_polydata g v p s = emit g (Write p) (s\<lparr>fs := (fs s)(p \<mapsto> v)\<rparr>)"

text \<open>A library call: the value it returns, and the event.\<close>

definition call :: "step \<Rightarrow> string \<Rightarrow> obj list \<Rightarrow> pp \<Rightarrow> obj \<times> pp" where
  "call g f xs s = (Obj f xs, emit g (Call f xs) s)"

text \<open>
  A library call that is handed the name of the file for its result: morphman's
  \<open>compute_centerlines\<close> and the \<open>dist_sphere_*\<close> functions store what they compute in
  that file. \<open>compute_centerlines\<close> moreover returns the file's content when the file is
  already there.
\<close>

definition call_storing :: "step \<Rightarrow> string \<Rightarrow> obj list \<Rightarrow> string \<Rightarrow> pp \<Rightarrow> obj \<times> pp" where
  "call_storing g f xs p s =
     (let (v, s) = call g f xs s in (v, write_polydata g v p s))"

definition compute_centerlines :: "step \<Rightarrow> obj list \<Rightarrow> string \<Rightarrow> pp \<Rightarrow> obj \<times> pp" where
  "compute_centerlines g xs p s =
     (case fs s p of
        Some v \<Rightarrow> (v, emit g (Read p) (emit g (Call ''compute_centerlines'' xs) s))
      | None \<Rightarrow> call_storing g ''compute_centerlines'' xs p s)"

text \<open>\<open>for file in files: if path.exists(file): remove(file)\<close>.\<close>

definition remove_existing :: "step \<Rightarrow> string list \<Rightarrow> pp \<Rightarrow> pp" where
  "remove_existing g files s =
     fold (\<lambda>file s. if isfile s file then emit g (Remove file) (s\<lparr>fs := (fs s)(file := None)\<rparr>)
                     else s) files s"

text \<open>The parameter file \<open>base_path + "_info.json"\<close> holds a dictionary; the model keeps its keys.\<close>

definition get_parameters :: "string \<Rightarrow> pp \<Rightarrow> string list" where
  "get_parameters base_path s =
     (case fs s (base_path @ ''_info.json'') of
        Some (Obj f ks) \<Rightarrow> concat (map (\<lambda>k. case k of Str key \<Rightarrow> [key] | _ \<Rightarrow> []) ks)
      | _ \<Rightarrow> [])"

definition write_parameters :: "step \<Rightarrow> string list \<Rightarrow> string \<Rightarrow> pp \<Rightarrow> pp" where
  "write_parameters g keys base_path s =
     write_polydata g (Obj ''parameters'' (map Str (remdups (get_parameters base_path s @ keys))))
       (base_path @ ''_info.json'') s"

subsection \<open>Paths and file names\<close>

definition after_last_sep :: "string \<Rightarrow> string" where
  "after_last_sep p = rev (takeWhile (\<lambda>c. c \<noteq> CHR ''/'') (rev p))"

definition before_last_sep :: "string \<Rightarrow> string" where
  "before_last_sep p =
     (if CHR ''/'' \<in> set p then rev (tl (dropWhile (\<lambda>c. c \<noteq> CHR ''/'') (rev p))) else p)"

definition path_join :: "string \<Rightarrow> string \<Rightarrow> string" where
  "path_join d f =
     (if f \<noteq> [] \<and> hd f = CHR ''/'' then f
      else if d = [] \<or> last d = CHR ''/'' then d @ f
      else d @ ''/'' @ f)"

definition case_name_of :: "string \<Rightarrow> string" where
  "case_name_of input = takeWhile (\<lambda>c. c \<noteq> CHR ''.'') (after_last_sep input)"

definition base_path_of :: "string \<Rightarrow> string" where
  "base_path_of input = path_join (before_last_sep input) (case_name_of input)"

definition file_name_centerlines :: "string \<Rightarrow> string" where
  "file_name_centerlines base_path = base_path @ ''_centerlines.vtp''"
definition file_name_refine_region_centerlines :: "string \<Rightarrow> string" where
  "file_name_refine_region_centerlines base_path = base_path @ ''_refine_region_centerline.vtp''"
definition file_name_region_centerlines :: "string \<Rightarrow> string" where
  "file_name_region_centerlines base_path = base_path @ ''_sac_centerline_{}.vtp''"
definition file_name_distance_to_sphere_diam :: "string \<Rightarrow> string" where
  "file_name_distance_to_sphere_diam base_path = base_path @ ''_distance_to_sphere_diam.vtp''"
definition file_name_distance_to_sphere_const :: "string \<Rightarrow> string" where
  "file_name_distance_to_sphere_const base_path = base_path @ ''_distance_to_sphere_const.vtp''"
definition file_name_distance_to_sphere_curv :: "string \<Rightarrow> string" where
  "file_name_distance_to_sphere_curv base_path = base_path @ ''_distance_to_sphere_curv.vtp''"
definition file_name_distance_to_sphere_spheres :: "string \<Rightarrow> string" where
  "file_name_distance_to_sphere_spheres base_path = base_path @ ''_distance_to_sphere_spheres.vtp''"
definition file_name_distance_to_sphere_solid_thickness :: "string \<Rightarrow> string" where
  "file_name_distance_to_sphere_solid_thickness base_path =
     base_path @ ''_distance_to_sphere_solid_thickness.vtp''"
definition file_name_parameters :: "string \<Rightarrow> string" where
  "file_name_parameters base_path = base_path @ ''_info.json''"
definition file_name_probe_points :: "string \<Rightarrow> string" where
  "file_name_probe_points base_path = base_path @ ''_probe_point.json''"
definition file_name_voronoi :: "string \<Rightarrow> string" where
  "file_name_voronoi base_path = base_path @ ''_voronoi.vtp''"
definition file_name_voronoi_smooth :: "string \<Rightarrow> string" where
  "file_name_voronoi_smooth base_path = base_path @ ''_voronoi_smooth.vtp''"
definition file_name_voronoi_surface :: "string \<Rightarrow> string" where
  "file_name_voronoi_surface base_path = base_path @ ''_voronoi_surface.vtp''"
definition file_name_surface_smooth :: "string \<Rightarrow> string" where
  "file_name_surface_smooth base_path = base_path @ ''_smooth.vtp''"
definition file_name_model_flow_ext :: "string \<Rightarrow> string" where
  "file_name_model_flow_ext base_path = base_path @ ''_flowext.vtp''"
definition file_name_clipped_model :: "string \<Rightarrow> string" where
  "file_name_clipped_model base_path = base_path @ ''_clippedmodel.vtp''"
definition file_name_flow_centerlines :: "string \<Rightarrow> string" where
  "file_name_flow_centerlines base_path = base_path @ ''_flow_cl.vtp''"
definition file_name_surface_name :: "string \<Rightarrow> string" where
  "file_name_surface_name base_path = base_path @ ''_remeshed_surface.vtp''"
definition file_name_xml_mesh_of :: "string \<Rightarrow> string" where
  "file_name_xml_mesh_of base_path = base_path @ ''.xml''"
definition file_name_vtu_mesh :: "string \<Rightarrow> string" where
  "file_name_vtu_mesh base_path = base_path @ ''.vtu''"
definition file_name_hdf5_mesh :: "string \<Rightarrow> string" where
  "file_name_hdf5_mesh base_path = base_path @ ''.h5''"
definition file_name_xdmf_mesh :: "string \<Rightarrow> string" where
  "file_name_xdmf_mesh base_path = base_path @ ''.xdmf''"
definition file_name_edge_length_xdmf :: "string \<Rightarrow> string" where
  "file_name_edge_length_xdmf base_path = base_path @ ''_edge_length.xdmf''"

text \<open>\<open>str(i)\<close> of a number, for \<open>file_name_region_centerlines.format(i)\<close>.\<close>

function str_of_nat :: "nat \<Rightarrow> string" where
  "str_of_nat n =
     (if n < 10 then [char_of (48 + n)] else str_of_nat (n div 10) @ [char_of (48 + n mod 10)])"
  by pat_completeness auto
termination
  by (relation "measure id") auto

definition region_centerlines_file :: "string \<Rightarrow> nat \<Rightarrow> string" where
  "region_centerlines_file base_path i = base_path @ ''_sac_centerline_'' @ str_of_nat i @ ''.vtp''"

text \<open>The list that \<open>remove_all\<close> removes, and the list removed at the end of every run.\<close>

definition files_to_remove_all :: "string \<Rightarrow> string list" where
  "files_to_remove_all b =
     [file_name_centerlines b, file_name_refine_region_centerlines b, file_name_region_centerlines b,
      file_name_distance_to_sphere_diam b, file_name_distance_to_sphere_const b,
      file_name_distance_to_sphere_curv b, file_name_distance_to_sphere_spheres b,
      file_name_distance_to_sphere_solid_thickness b, file_name_parameters b,
      file_name_probe_points b, file_name_voronoi b, file_name_voronoi_smooth b,
      file_name_voronoi_surface b, file_name_surface_smooth b, file_name_model_flow_ext b,
      file_name_clipped_model b, file_name_flow_centerlines b, file_name_surface_name b,
      file_name_xml_mesh_of b, file_name_vtu_mesh b, file_name_hdf5_mesh b, file_name_xdmf_mesh b]"

definition files_to_remove :: "string \<Rightarrow> string list" where
  "files_to_remove b =
     [file_name_centerlines b, file_name_refine_region_centerlines b, file_name_region_centerlines b,
      file_name_distance_to_sphere_diam b, file_name_distance_to_sphere_const b,
      file_name_distance_to_sphere_curv b, file_name_voronoi b, file_name_voronoi_smooth b,
      file_name_voronoi_surface b, file_name_surface_smooth b, file_name_model_flow_ext b,
      file_name_clipped_model b, file_name_flow_centerlines b, file_name_surface_name b]"

subsection \<open>The steps of \<open>run_pre_processing\<close>\<close>

text \<open>Naming conventions, \<open>remove_all\<close>, loading and scaling the surface.\<close>

definition stage_load :: "params \<Rightarrow> pp \<Rightarrow> pp result" where
  "stage_load a s =
     (let base_path = base_path_of (input_model a);
          s = s\<lparr>trace := [], gm_calls := 0, region_centerlines := PyNone,
                distance_to_sphere := None,
                file_name_xml_mesh := file_name_xml_mesh_of base_path\<rparr>;
          s = (if remove_all a then remove_existing Load (files_to_remove_all base_path) s else s)
      in bindE (read_polydata Load (input_model a) s) (\<lambda>(v, s).
           let s = s\<lparr>surface := v\<rparr> in
           (case scale_factor a of
              None \<Rightarrow> Inr s
            | Some k \<Rightarrow>
                (let (v, s) = call Load ''scale_surface'' [surface s, Num k] s
                 in Inr (s\<lparr>surface := v, resampling_step := resampling_step s * k\<rparr>)))))"

text \<open>Check if the surface is closed, and uncap the model if it is.\<close>

definition stage_clip :: "params \<Rightarrow> env \<Rightarrow> pp \<Rightarrow> pp result" where
  "stage_clip a e s =
     (let base_path = base_path_of (input_model a);
          is_capped = check_if_closed_surface e (surface s)
      in if is_capped then
           (if \<not> isfile s (file_name_clipped_model base_path) then
              (let (v, s) = call Clip ''get_uncapped_surface'' [surface s] s;
                   s = s\<lparr>surface := v\<rparr>
               in Inr (write_polydata Clip (surface s) (file_name_clipped_model base_path) s))
            else bindE (read_polydata Clip (file_name_clipped_model base_path) s)
                   (\<lambda>(v, s). Inr (s\<lparr>surface := v\<rparr>)))
         else Inr s)"

text \<open>Get the model parameters; clean and check the surface unless that was done before.\<close>

definition stage_clean :: "params \<Rightarrow> env \<Rightarrow> pp \<Rightarrow> pp result" where
  "stage_clean a e s =
     (let base_path = base_path_of (input_model a);
          s = s\<lparr>parameters := get_parameters base_path s\<rparr>
      in if ''check_surface'' \<notin> set (parameters s) then
           (let (v, s) = call Clean ''vtk_clean_polydata'' [surface s] s;
                s = s\<lparr>surface := v\<rparr>;
                (v, s) = call Clean ''vtk_triangulate_surface'' [surface s] s;
                s = s\<lparr>surface := v\<rparr>;
                (v, s) = call Clean ''clean_surface'' [surface s] s;
                s = s\<lparr>surface := v\<rparr>;
                foundNaN = find_and_delete_nan_triangles e (surface s)
            in if foundNaN then Inl (RuntimeError, s)
               else (let s = s\<lparr>parameters := parameters s @ [''check_surface'']\<rparr>
                     in Inr (write_parameters Clean (parameters s) base_path s)))
         else Inr s)"

text \<open>Create a capped version of the surface.\<close>

definition stage_cap :: "pp \<Rightarrow> pp result" where
  "stage_cap s =
     (let (v, s) = call Cap ''vmtk_cap_polydata'' [surface s] s
      in Inr (s\<lparr>capped_surface := v\<rparr>))"

text \<open>
  The centerlines of the regions to refine: one file for each region, read when it is
  there. The braces of the file name template are taken not to occur in the base path.
\<close>

fun region_loop :: "string \<Rightarrow> obj \<Rightarrow> nat list \<Rightarrow> obj list \<Rightarrow> pp \<Rightarrow> (obj list \<times> pp) result" where
  "region_loop base_path centerline_region [] refine_region_centerline s =
     Inr (refine_region_centerline, s)"
| "region_loop base_path centerline_region (i # rest) refine_region_centerline s =
     (if \<not> isfile s (region_centerlines_file base_path i) then
        (let (line, s) = call Centerlines ''extract_single_line'' [centerline_region, Num (real i)] s;
             (tmp, s) = call Centerlines ''extract_single_line'' [line, centerlines s] s;
             s = write_polydata Centerlines tmp (region_centerlines_file base_path i) s
         in region_loop base_path centerline_region rest (refine_region_centerline @ [tmp]) s)
      else bindE (read_polydata Centerlines (region_centerlines_file base_path i) s)
             (\<lambda>(v, s). region_loop base_path centerline_region rest
                          (refine_region_centerline @ [v]) s))"

definition refine_regions :: "params \<Rightarrow> env \<Rightarrow> pp \<Rightarrow> pp result" where
  "refine_regions a e s =
     (if refine_region a then
        (let base_path = base_path_of (input_model a);
             source = (if has_multiple_inlets a then outlets s else inlet s);
             (regions, s) = call Centerlines ''get_regions_to_refine'' [capped_surface s] s;
             (centerline_region, s) =
                compute_centerlines Centerlines
                  [source, regions, capped_surface s, Num (resampling_step s)]
                  (file_name_refine_region_centerlines base_path) s
         in bindE (region_loop base_path centerline_region [0..<number_of_regions e] [] s)
              (\<lambda>(refine_region_centerline, s).
                 let (v, s) = call Centerlines ''vtk_merge_polydata'' refine_region_centerline s
                 in Inr (s\<lparr>region_centerlines := v,
                          region_center := region_center s
                             @ map (\<lambda>r. Obj ''region_center'' [r]) refine_region_centerline,
                          misr_max := misr_max s
                             @ map (\<lambda>r. Obj ''misr_max'' [r]) refine_region_centerline\<rparr>)))
      else Inr s)"

text \<open>Get the centerlines, and the centre and radius of the regions.\<close>

definition stage_centerlines :: "params \<Rightarrow> env \<Rightarrow> pp \<Rightarrow> pp result" where
  "stage_centerlines a e s =
     (let base_path = base_path_of (input_model a);
          (c, s) = call Centerlines ''get_centers_for_meshing'' [surface s] s;
          s = s\<lparr>inlet := Obj ''inlet'' [c], outlets := Obj ''outlets'' [c]\<rparr>;
          s = s\<lparr>has_outlet := outlets_found e (outlets s)\<rparr>;
          s = (if \<not> has_outlet s then
                 (let (v, s) = call Centerlines ''get_furtest_surface_point'' [inlet s, surface s] s
                  in s\<lparr>outlets := v\<rparr>)
               else s);
          source = (if has_multiple_inlets a then outlets s else inlet s);
          target = (if has_multiple_inlets a then inlet s else outlets s);
          (v, s) = compute_centerlines Centerlines
                     [source, target, capped_surface s, Num (resampling_step s)]
                     (file_name_centerlines base_path) s;
          s = s\<lparr>centerlines := v, region_center := [], misr_max := []\<rparr>
      in refine_regions a e s)"

text \<open>Smooth the surface.\<close>

definition stage_smooth :: "params \<Rightarrow> env \<Rightarrow> pp \<Rightarrow> pp result" where
  "stage_smooth a e s =
     (let base_path = base_path_of (input_model a) in
      if smoothing_method a = ''voronoi'' then
        (if \<not> isfile s (file_name_surface_smooth base_path) then
           bindE
             (if \<not> isfile s (file_name_voronoi base_path) then
                (let (v, s) = call Smooth ''vmtk_compute_voronoi_diagram'' [capped_surface s] s
                 in Inr (v, write_polydata Smooth v (file_name_voronoi base_path) s))
              else read_polydata Smooth (file_name_voronoi base_path) s)
             (\<lambda>(voronoi, s).
           bindE
             (if \<not> isfile s (file_name_voronoi_smooth base_path) then
                (let (v, s) = call Smooth ''smooth_voronoi_diagram''
                                [voronoi, centerlines s, region_centerlines s] s
                 in Inr (v, write_polydata Smooth v (file_name_voronoi_smooth base_path) s))
              else read_polydata Smooth (file_name_voronoi_smooth base_path) s)
             (\<lambda>(voronoi_smoothed, s).
           let (surface_smoothed, s) = call Smooth ''create_new_surface'' [voronoi_smoothed] s;
               (surface_uncapped, s) = call Smooth ''prepare_output_surface''
                                         [surface_smoothed, surface s, centerlines s] s;
               (c, s) = call Smooth ''compute_centers'' [surface_uncapped] s;
               s = s\<lparr>outlets := Obj ''outlets'' [c]\<rparr>
           in if \<not> outlets_unchanged e (centerlines s) surface_uncapped then
                Inl (SystemExit (- 1),
                     write_polydata Smooth (surface s) (file_name_surface_smooth base_path) s)
              else
                (let s = s\<lparr>surface := surface_uncapped\<rparr>;
                     (v, s) = call Smooth ''vmtk_smooth_surface'' [surface s] s;
                     s = s\<lparr>surface := v\<rparr>
                 in Inr (write_polydata Smooth (surface s)
                           (file_name_surface_smooth base_path) s))))
         else bindE (read_polydata Smooth (file_name_surface_smooth base_path) s)
                (\<lambda>(v, s). Inr (s\<lparr>surface := v\<rparr>)))
      else if smoothing_method a \<in> {''laplace'', ''taubin''} then
        (if \<not> isfile s (file_name_surface_smooth base_path) then
           (let (v, s) = call Smooth ''vmtk_smooth_surface'' [surface s] s;
                s = s\<lparr>surface := v\<rparr>
            in Inr (write_polydata Smooth (surface s) (file_name_surface_smooth base_path) s))
         else bindE (read_polydata Smooth (file_name_surface_smooth base_path) s)
                (\<lambda>(v, s). Inr (s\<lparr>surface := v\<rparr>)))
      else Inr s)"

text \<open>Add flow extensions.\<close>

definition stage_flowext :: "params \<Rightarrow> pp \<Rightarrow> pp result" where
  "stage_flowext a s =
     (let base_path = base_path_of (input_model a) in
      if add_flow_extensions a then
        (if \<not> isfile s (file_name_model_flow_ext base_path) then
           (let s = (if has_multiple_inlets a then
                       s\<lparr>inlet_flow_extension_length := outlet_flow_extension_length s,
                         outlet_flow_extension_length := inlet_flow_extension_length s\<rparr>
                     else s);
                (v, s) = call FlowExt ''add_flow_extension''
                           [surface s, centerlines s, Num (inlet_flow_extension_length s)] s;
                (v, s) = call FlowExt ''add_flow_extension''
                           [v, centerlines s, Num (outlet_flow_extension_length s)] s;
                (v, s) = call FlowExt ''vmtk_smooth_surface'' [v] s;
                s = s\<lparr>surface_extended := v\<rparr>
            in Inr (write_polydata FlowExt (surface_extended s)
                      (file_name_model_flow_ext base_path) s))
         else bindE (read_polydata FlowExt (file_name_model_flow_ext base_path) s)
                (\<lambda>(v, s). Inr (s\<lparr>surface_extended := v\<rparr>)))
      else Inr (s\<lparr>surface_extended := surface s\<rparr>))"

text \<open>Cap the surface with flow extensions.\<close>

definition stage_cap_ext :: "pp \<Rightarrow> pp result" where
  "stage_cap_ext s =
     (let (v, s) = call CapExt ''vmtk_cap_polydata'' [surface_extended s] s
      in Inr (s\<lparr>capped_surface := v\<rparr>))"

text \<open>Get new centerlines with the flow extensions; clip the centerline if there is no outlet.\<close>

definition flow_centerlines :: "params \<Rightarrow> pp \<Rightarrow> pp result" where
  "flow_centerlines a s =
     (let base_path = base_path_of (input_model a) in
      if add_flow_extensions a then
        (if \<not> isfile s (file_name_flow_centerlines base_path) then
           (let (c, s) = call CenterlinesExt ''get_centers_for_meshing'' [surface_extended s] s;
                s = (if has_outlet s
                     then s\<lparr>inlet := Obj ''inlet'' [c], outlets := Obj ''outlets'' [c]\<rparr>
                     else s\<lparr>inlet := Obj ''inlet'' [c]\<rparr>);
                source = (if has_multiple_inlets a then outlets s else inlet s);
                target = (if has_multiple_inlets a then inlet s else outlets s);
                (v, s) = compute_centerlines CenterlinesExt
                           [source, target, capped_surface s, Num (resampling_step s)]
                           (file_name_flow_centerlines base_path) s
            in Inr (s\<lparr>centerlines := v\<rparr>))
         else bindE (read_polydata CenterlinesExt (file_name_flow_centerlines base_path) s)
                (\<lambda>(v, s). Inr (s\<lparr>centerlines := v\<rparr>)))
      else Inr s)"

definition clip_centerline :: "pp \<Rightarrow> pp result" where
  "clip_centerline s =
     (if \<not> has_outlet s then
        (let (line, s) = call CenterlinesExt ''extract_single_line'' [centerlines s] s;
             (line, s) = call CenterlinesExt ''vmtk_compute_geometric_features'' [line] s;
             (v, s) = call CenterlinesExt ''extract_single_line'' [centerlines s, line] s
         in Inr (s\<lparr>centerlines := v\<rparr>))
      else Inr s)"

definition stage_flow_centerlines :: "params \<Rightarrow> pp \<Rightarrow> pp result" where
  "stage_flow_centerlines a s = bindE (flow_centerlines a s) clip_centerline"

text \<open>
  Choose the input for the mesh. For the methods \<open>constant\<close>, \<open>curvature\<close> and \<open>diameter\<close>
  the source repeats the same four lines with another library function and file.
\<close>

definition distance_field_from :: "string \<Rightarrow> string \<Rightarrow> pp \<Rightarrow> pp result" where
  "distance_field_from f file s =
     (if \<not> isfile s file then
        (let (v, s) = call_storing DistField f
                        ([surface_extended s, centerlines s] @ region_center s @ misr_max s) file s
         in Inr (s\<lparr>distance_to_sphere := Some v\<rparr>))
      else bindE (read_polydata DistField file s)
             (\<lambda>(v, s). Inr (s\<lparr>distance_to_sphere := Some v\<rparr>)))"

text \<open>\<open>p[0] *= k; p[2] *= k; p[3] *= k\<close> on a list of four numbers.\<close>

definition scale_offset_min_max :: "real \<Rightarrow> real list \<Rightarrow> real list" where
  "scale_offset_min_max k p = p[0 := p ! 0 * k, 2 := p ! 2 * k, 3 := p ! 3 * k]"

definition stage_distance :: "params \<Rightarrow> pp \<Rightarrow> pp result" where
  "stage_distance a s =
     (let base_path = base_path_of (input_model a) in
      if meshing_method a = ''constant'' then
        distance_field_from ''dist_sphere_constant''
          (file_name_distance_to_sphere_const base_path) s
      else if meshing_method a = ''curvature'' then
        distance_field_from ''dist_sphere_curvature''
          (file_name_distance_to_sphere_curv base_path) s
      else if meshing_method a = ''diameter'' then
        distance_field_from ''dist_sphere_diam''
          (file_name_distance_to_sphere_diam base_path) s
      else if meshing_method a = ''distancetospheres'' then
        (if \<not> isfile s (file_name_distance_to_sphere_spheres base_path) then
           (if length (meshing_parameters s) = 4 then
              (let s = (case scale_factor a of
                          None \<Rightarrow> s
                        | Some k \<Rightarrow> s\<lparr>meshing_parameters :=
                                        scale_offset_min_max k (meshing_parameters s)\<rparr>);
                   (v, s) = call_storing DistField ''dist_sphere_spheres''
                              (surface_extended s # map Num (meshing_parameters s))
                              (file_name_distance_to_sphere_spheres base_path) s
               in Inr (s\<lparr>distance_to_sphere := Some v\<rparr>))
            else Inl (SystemExit (- 1), s))
         else bindE (read_polydata DistField (file_name_distance_to_sphere_spheres base_path) s)
                (\<lambda>(v, s). Inr (s\<lparr>distance_to_sphere := Some v\<rparr>)))
      else Inr s)"

text \<open>Get the solid thickness.\<close>

definition stage_thickness :: "params \<Rightarrow> pp \<Rightarrow> pp result" where
  "stage_thickness a s =
     (let base_path = base_path_of (input_model a);
          file = file_name_distance_to_sphere_solid_thickness base_path
      in if solid_thickness a = ''variable'' then
           (if \<not> isfile s file then
              (if length (solid_thickness_parameters s) = 4 then
                 (let s = (case scale_factor a of
                             None \<Rightarrow> s
                           | Some k \<Rightarrow> s\<lparr>solid_thickness_parameters :=
                                           scale_offset_min_max k (solid_thickness_parameters s)\<rparr>)
                  in case distance_to_sphere s of
                       None \<Rightarrow> Inl (UnboundLocalError, s)
                     | Some d \<Rightarrow>
                         (let (v, s) = call_storing DistField ''distance_to_spheres_solid_thickness''
                                         (d # map Num (solid_thickness_parameters s)) file s
                          in Inr (s\<lparr>distance_to_sphere := Some v\<rparr>)))
               else if length (solid_thickness_parameters s) = 0 then
                 (case distance_to_sphere s of
                    None \<Rightarrow> Inl (UnboundLocalError, s)
                  | Some d \<Rightarrow>
                      (let (v, s) = call_storing DistField ''distance_to_spheres_solid_thickness''
                                      [d] file s
                       in Inr (s\<lparr>distance_to_sphere := Some v\<rparr>)))
               else Inl (SystemExit (- 1), s))
            else bindE (read_polydata DistField file s)
                   (\<lambda>(v, s). Inr (s\<lparr>distance_to_sphere := Some v\<rparr>)))
         else
           (if length (solid_thickness_parameters s) \<noteq> 1 \<or> solid_thickness_parameters s ! 0 \<le> 0
            then Inl (SystemExit (- 1), s)
            else (case scale_factor a of
                    None \<Rightarrow> Inr s
                  | Some k \<Rightarrow>
                      Inr (s\<lparr>solid_thickness_parameters :=
                             (solid_thickness_parameters s)
                               [0 := solid_thickness_parameters s ! 0 * k]\<rparr>))))"

subsection \<open>Mesh generation with retries and a fallback\<close>

text \<open>
  \<open>try_generate_mesh\<close>: what the \<open>n\<close>-th call of \<open>generate_mesh\<close> does on its input is the
  environment's; a \<open>RuntimeError\<close> is caught and gives \<open>None\<close>, any other exception
  passes through.
\<close>

definition try_generate_mesh :: "env \<Rightarrow> obj \<Rightarrow> pp \<Rightarrow> ((obj \<times> obj) option \<times> pp) result" where
  "try_generate_mesh e d s =
     (let s' = emit MeshGen (Call ''generate_mesh'' [d]) (s\<lparr>gm_calls := gm_calls s + 1\<rparr>)
      in case generate_mesh e (gm_calls s) d of
           Returns m r \<Rightarrow> Inr (Some (m, r), s')
         | Raises_RuntimeError \<Rightarrow> Inr (None, s')
         | Raises_other \<Rightarrow> Inl (UncaughtException, s'))"

text \<open>
  \<open>for i in range(n): ... if mesh_and_surface: ... break\<close>, with \<open>n\<close> the number of
  iterations left.
\<close>

fun retry_loop :: "env \<Rightarrow> obj \<Rightarrow> nat \<Rightarrow> pp \<Rightarrow> ((obj \<times> obj) option \<times> pp) result" where
  "retry_loop e d 0 s = Inr (None, s)"
| "retry_loop e d (Suc n) s =
     bindE (try_generate_mesh e d s)
       (\<lambda>(mesh_and_surface, s).
          case mesh_and_surface of
            Some ms \<Rightarrow> Inr (Some ms, s)
          | None \<Rightarrow> retry_loop e d n s)"

definition generate_with_fallback :: "params \<Rightarrow> env \<Rightarrow> pp \<Rightarrow> ((obj \<times> obj) \<times> pp) result" where
  "generate_with_fallback a e s =
     (case distance_to_sphere s of
        None \<Rightarrow> Inl (UnboundLocalError, s)
      | Some d \<Rightarrow>
          bindE (retry_loop e d (nat (mesh_generation_retries a + 1)) s)
            (\<lambda>(mesh_and_surface, s).
               case mesh_and_surface of
                 Some ms \<Rightarrow> Inr (ms, s)
               | None \<Rightarrow>
                   (let (d', s) = call MeshGen ''mesh_alternative'' [d] s;
                        s = s\<lparr>distance_to_sphere := Some d'\<rparr>
                    in bindE (try_generate_mesh e d' s)
                         (\<lambda>(mesh_and_surface, s).
                            case mesh_and_surface of
                              Some ms \<Rightarrow> Inr (ms, s)
                            | None \<Rightarrow> Inl (SystemExit (- 1), s)))))"

text \<open>
  vampy's \<open>write_mesh\<close> writes the remeshed surface, the VTU mesh and the XML mesh, the
  last with \<open>.gz\<close> appended to its name when it is compressed.
\<close>

definition write_mesh :: "bool \<Rightarrow> string \<Rightarrow> string \<Rightarrow> string \<Rightarrow> obj \<Rightarrow> obj \<Rightarrow> pp \<Rightarrow> pp" where
  "write_mesh compress surface_name vtu_mesh xml_mesh m r s =
     (let s = write_polydata MeshGen r surface_name s;
          s = write_polydata MeshGen m vtu_mesh s
      in write_polydata MeshGen (Obj ''xml_mesh'' [m])
           (if compress then xml_mesh @ ''.gz'' else xml_mesh) s)"

definition mesh_id_keys :: "string list" where
  "mesh_id_keys = [''solid_side_wall_id'', ''interface_fsi_id'', ''solid_outer_wall_id'',
                   ''fluid_volume_id'', ''solid_volume_id'']"

text \<open>Writing the generated mesh, and the mesh ids to the parameter file.\<close>

definition write_generated_mesh :: "params \<Rightarrow> obj \<Rightarrow> pp \<Rightarrow> pp" where
  "write_generated_mesh a remeshed_surface s =
     (let base_path = base_path_of (input_model a);
          s = (if mesh_format a \<in> {''xml'', ''hdf5''} then
                 (let s = write_mesh (compress_mesh a) (file_name_surface_name base_path)
                            (file_name_vtu_mesh base_path) (file_name_xml_mesh s)
                            (mesh s) remeshed_surface s
                  in if compress_mesh a
                     then s\<lparr>file_name_xml_mesh := file_name_xml_mesh s @ ''.gz''\<rparr>
                     else s)
               else
                 (let s = write_polydata MeshGen remeshed_surface
                            (file_name_surface_name base_path) s
                  in write_polydata MeshGen (mesh s) (file_name_vtu_mesh base_path) s));
          s = s\<lparr>parameters := parameters s @ mesh_id_keys\<rparr>
      in write_parameters MeshGen (parameters s) base_path s)"

text \<open>Compute the mesh, unless the VTU file is there.\<close>

definition stage_mesh :: "params \<Rightarrow> env \<Rightarrow> pp \<Rightarrow> pp result" where
  "stage_mesh a e s =
     (let base_path = base_path_of (input_model a) in
      if \<not> isfile s (file_name_vtu_mesh base_path) then
        bindE (generate_with_fallback a e s)
          (\<lambda>((m, remeshed_surface), s).
             let s = s\<lparr>mesh := m\<rparr> in
             if \<not> GetNumberOfPoints e (mesh s) > 0 then Inl (AssertionError, s)
             else if \<not> GetNumberOfPoints e remeshed_surface > 0 then Inl (AssertionError, s)
             else Inr (write_generated_mesh a remeshed_surface s))
      else bindE (read_polydata MeshGen (file_name_vtu_mesh base_path) s)
             (\<lambda>(v, s). Inr (s\<lparr>mesh := v\<rparr>)))"

subsection \<open>Conversion, boundary ids and the final removal\<close>

definition stage_convert :: "params \<Rightarrow> pp \<Rightarrow> pp result" where
  "stage_convert a s =
     (let base_path = base_path_of (input_model a) in
      if mesh_format a = ''hdf5'' then
        (let (v, s) = call_storing Convert ''convert_xml_mesh_to_hdf5'' [Str (file_name_xml_mesh s)]
                        (file_name_hdf5_mesh base_path) s;
             (v, s) = call_storing Convert ''edge_length_evaluator'' [Str (file_name_xml_mesh s)]
                        (file_name_edge_length_xdmf base_path) s;
             (v, s) = call Convert ''load_mesh_and_data'' [Str (file_name_hdf5_mesh base_path)] s
         in Inr s)
      else if mesh_format a = ''xdmf'' then
        (let (v, s) = call_storing Convert ''convert_vtu_mesh_to_xdmf''
                        [Str (file_name_vtu_mesh base_path)] (file_name_xdmf_mesh base_path) s;
             (v, s) = call_storing Convert ''edge_length_evaluator''
                        [Str (file_name_xdmf_mesh base_path)]
                        (file_name_edge_length_xdmf base_path) s
         in Inr s)
      else Inr s)"

definition stage_network :: "params \<Rightarrow> pp \<Rightarrow> (obj \<times> pp) result" where
  "stage_network a s =
     (let base_path = base_path_of (input_model a);
          (network_and_probes, s) =
             call_storing Network ''setup_model_network'' (centerlines s # region_center s)
               (file_name_probe_points base_path) s
      in Inr (network_and_probes, s\<lparr>parameters := get_parameters base_path s\<rparr>))"

definition stage_boundaries :: "obj \<Rightarrow> pp \<Rightarrow> (obj \<times> pp) result" where
  "stage_boundaries network_and_probes s =
     (let (mean_inflow_rate, s) = call BoundaryIDs ''compute_flow_rate'' [inlet s] s;
          (v, s) = call BoundaryIDs ''find_boundaries''
                     [mean_inflow_rate, network_and_probes, mesh s] s
      in Inr (mean_inflow_rate, s))"

definition stage_visualize :: "params \<Rightarrow> obj \<Rightarrow> obj \<Rightarrow> pp \<Rightarrow> pp result" where
  "stage_visualize a network_and_probes mean_inflow_rate s =
     (if visualize a then
        (let (v, s) = call Visualize ''visualize_model''
                        [network_and_probes, surface_extended s, mean_inflow_rate] s
         in Inr s)
      else Inr s)"

definition stage_simulate :: "params \<Rightarrow> pp \<Rightarrow> pp result" where
  "stage_simulate a s =
     (case config_path a of
        Some p \<Rightarrow> (let (v, s) = call Simulate ''run_simulation'' [Str p] s in Inr s)
      | None \<Rightarrow> Inr s)"

definition stage_cleanup :: "params \<Rightarrow> pp \<Rightarrow> pp result" where
  "stage_cleanup a s =
     Inr (remove_existing Cleanup (files_to_remove (base_path_of (input_model a))) s)"

subsection \<open>The function\<close>

definition run_pre_processing :: "params \<Rightarrow> env \<Rightarrow> pp \<Rightarrow> pp result" where
  "run_pre_processing a e s =
     bindE (stage_load a s) (\<lambda>s.
     bindE (stage_clip a e s) (\<lambda>s.
     bindE (stage_clean a e s) (\<lambda>s.
     bindE (stage_cap s) (\<lambda>s.
     bindE (stage_centerlines a e s) (\<lambda>s.
     bindE (stage_smooth a e s) (\<lambda>s.
     bindE (stage_flowext a s) (\<lambda>s.
     bindE (stage_cap_ext s) (\<lambda>s.
     bindE (stage_flow_centerlines a s) (\<lambda>s.
     bindE (stage_distance a s) (\<lambda>s.
     bindE (stage_thickness a s) (\<lambda>s.
     bindE (stage_mesh a e s) (\<lambda>s.
     bindE (stage_convert a s) (\<lambda>s.
     bindE (stage_network a s) (\<lambda>(network_and_probes, s).
     bindE (stage_boundaries network_and_probes s) (\<lambda>(mean_inflow_rate, s).
     bindE (stage_visualize a network_and_probes mean_inflow_rate s) (\<lambda>s.
     bindE (stage_simulate a s) (\<lambda>s.
     stage_cleanup a s)))))))))))))))))"

subsection \<open>Concrete runs\<close>

text \<open>
  The default arguments of the command line (no smoothing, meshing by diameter, flow
  extensions, constant solid thickness, HDF5 mesh, two retries) on \<open>cases/model.vtp\<close>.
\<close>

definition default_params :: params where
  "default_params =
     \<lparr> input_model = ''cases/model.vtp'', smoothing_method = ''no_smooth'',
       meshing_method = ''diameter'', refine_region = False, has_multiple_inlets = False,
       add_flow_extensions = True, visualize = True, config_path = None, compress_mesh = True,
       scale_factor = None, remove_all = False, solid_thickness = ''constant'',
       mesh_format = ''hdf5'', mesh_generation_retries = 2 \<rparr>"

text \<open>The state before the call: a file system, and the default values of the arguments assigned to.\<close>

definition initial_pp :: "(string \<rightharpoonup> obj) \<Rightarrow> pp" where
  "initial_pp files =
     \<lparr> fs = files, trace = [], gm_calls = 0, resampling_step = 0.1,
       meshing_parameters = [0, 0.1, 0.4, 0.6], solid_thickness_parameters = [0.3],
       inlet_flow_extension_length = 5, outlet_flow_extension_length = 5,
       surface = PyNone, capped_surface = PyNone, centerlines = PyNone, inlet = PyNone,
       outlets = PyNone, has_outlet = False, region_centerlines = PyNone, region_center = [],
       misr_max = [], surface_extended = PyNone, distance_to_sphere = None, mesh = PyNone,
       parameters = [], file_name_xml_mesh = [] \<rparr>"

definition model_only :: "string \<rightharpoonup> obj" where
  "model_only = [''cases/model.vtp'' \<mapsto> Obj ''model'' []]"

text \<open>
  An environment in which the surface is open and clean and has outlets, and the first
  \<open>failures\<close> calls of \<open>generate_mesh\<close> raise \<open>RuntimeError\<close>.
\<close>

definition example_env :: "nat \<Rightarrow> env" where
  "example_env failures =
     \<lparr> check_if_closed_surface = (\<lambda>v. False), find_and_delete_nan_triangles = (\<lambda>v. False),
       outlets_found = (\<lambda>v. True), outlets_unchanged = (\<lambda>c v. True), number_of_regions = 0,
       generate_mesh = (\<lambda>k d. if k < failures then Raises_RuntimeError
                               else Returns (Obj ''mesh'' [d]) (Obj ''remeshed_surface'' [d])),
       GetNumberOfPoints = (\<lambda>v. 100) \<rparr>"

text \<open>The state after \<open>k\<close> calls of \<open>generate_mesh\<close> on \<open>d\<close> that returned nothing.\<close>

definition after_generate_calls :: "nat \<Rightarrow> obj \<Rightarrow> pp \<Rightarrow> pp" where
  "after_generate_calls k d s =
     s\<lparr>gm_calls := gm_calls s + k,
       trace := trace s @ replicate k (MeshGen, Call ''generate_mesh'' [d])\<rparr>"

text \<open>The state a run ends in, whether it returns or not.\<close>

definition final_state :: "pp result \<Rightarrow> pp" where
  "final_state r = (case r of Inl (err, s) \<Rightarrow> s | Inr s \<Rightarrow> s)"

text \<open>
  The state of the default run on \<open>cases/model.vtp\<close> when it reaches the mesh step: the
  distance field is there, the VTU file is not.
\<close>

definition example_before_mesh :: pp where
  "example_before_mesh =
     (initial_pp model_only)
       \<lparr>distance_to_sphere := Some (Obj ''dist_sphere_diam'' []),
        file_name_xml_mesh := ''cases/model.xml''\<rparr>"

subsection \<open>What a checkpointed step does\<close>

text \<open>
  A step with the checkpoint \<open>file\<close> for the variable \<open>var\<close> either skips its computation
  and reads the file: it returns, the variable is the file's content, its one event is
  the reading of the file, and the file system is as before.
\<close>

definition skipped_and_read ::
  "step \<Rightarrow> string \<Rightarrow> (pp \<Rightarrow> obj option) \<Rightarrow> pp \<Rightarrow> pp result \<Rightarrow> bool" where
  "skipped_and_read g file var s r =
     (\<exists>s'. r = Inr s' \<and> fs s file \<noteq> None \<and> var s' = fs s file
           \<and> trace s' = trace s @ [(g, Read file)] \<and> fs s' = fs s)"

text \<open>
  Or it computes and writes: it returns, the file holds the variable's value, and its
  events have a library call and the writing of the file, and no reading of it.
\<close>

definition computed_and_written ::
  "step \<Rightarrow> string \<Rightarrow> (pp \<Rightarrow> obj option) \<Rightarrow> pp \<Rightarrow> pp result \<Rightarrow> bool" where
  "computed_and_written g file var s r =
     (\<exists>s' es. r = Inr s' \<and> var s' \<noteq> None \<and> fs s' file = var s'
           \<and> trace s' = trace s @ es
           \<and> (\<exists>f xs. (g, Call f xs) \<in> set es) \<and> (g, Write file) \<in> set es
           \<and> (g, Read file) \<notin> set es)"

text \<open>
  A closed surface, the default arguments with Laplace smoothing, and a file system in
  which every checkpoint of the run on \<open>cases/model.vtp\<close> is there.
\<close>

definition closed_env :: env where
  "closed_env = (example_env 0)\<lparr>check_if_closed_surface := (\<lambda>v. True)\<rparr>"

definition laplace_params :: params where
  "laplace_params = default_params\<lparr>smoothing_method := ''laplace''\<rparr>"

definition checkpoints_present :: "string \<rightharpoonup> obj" where
  "checkpoints_present =
     [''cases/model.vtp'' \<mapsto> Obj ''model'' [],
      ''cases/model_clippedmodel.vtp'' \<mapsto> Obj ''clipped'' [],
      ''cases/model_smooth.vtp'' \<mapsto> Obj ''smooth'' [],
      ''cases/model_flowext.vtp'' \<mapsto> Obj ''flowext'' [],
      ''cases/model_flow_cl.vtp'' \<mapsto> Obj ''flow_cl'' [],
      ''cases/model_distance_to_sphere_diam.vtp'' \<mapsto> Obj ''distance'' [],
      ''cases/model.vtu'' \<mapsto> Obj ''vtu'' []]"


section \<open>Verified properties\<close>

subsection \<open>Helper facts on indices and vectors\<close>


lemma dist2_nonneg: "0 \<le> dist2 x c"
  by (cases x; cases c) (simp add: dist2_def)

lemma dist2_self: "dist2 c c = 0"
  by (cases c) (simp add: dist2_def)

lemma scale3_zero: "scale3 0 n = (0, 0, 0)"
  by (cases n) (simp add: scale3_def)

subsection \<open>The inlet velocity profile\<close>

lemma VelIn1Para_eval_formula:
  assumes "py_index (v1_interp_PA self) (v1_number self) = Inr q"
  shows "VelIn1Para_eval self x =
           Inr (scale3 (- (q * (1 - dist2 x (v1_c self) / (v1_r self)\<^sup>2)
                  * (if v1_t self < v1_t_ramp self \<and> v1_t_ramp self > 0
                     then - 0.5 * cos (pi * v1_t self / v1_t_ramp self) + 0.5 else 1)))
                (v1_n self))"
  using assms
  by (cases x; cases "v1_c self"; cases "v1_n self")
     (simp add: VelIn1Para_eval_def bindE_def Let_def dist2_def scale3_def)

lemma VelIn2Para_eval_formula:
  assumes "py_index (v2_interp_DA self) (v2_number self) = Inr q"
  shows "VelIn2Para_eval self x =
           Inr (scale3 (- (q * (1 - dist2 x (v2_c self) / (v2_r self)\<^sup>2)
                  * (if v2_t self < v2_t_ramp self \<and> v2_t_ramp self > 0
                     then - 0.5 * cos (pi * v2_t self / v2_t_ramp self) + 0.5 else 1)))
                (v2_n self))"
  using assms
  by (cases x; cases "v2_c self"; cases "v2_n self")
     (simp add: VelIn2Para_eval_def bindE_def Let_def dist2_def scale3_def)

lemma VelIn1Para_init_geometry:
  assumes "VelIn1Para_init t dt T n A (m0, m1, m2) w = Inr self"
  shows "v1_r self = sqrt (A / pi) \<and> v1_c self = (m0 / A, m1 / A, m2 / A) \<and> v1_n self = n
       \<and> A \<noteq> 0"
  using assms
  by (auto simp: VelIn1Para_init_def bindE_def step_number_def Let_def split: if_splits)

lemma VelIn2Para_init_geometry:
  assumes "VelIn2Para_init t dt T n A (m0, m1, m2) w = Inr self"
  shows "v2_r self = sqrt (A / pi) \<and> v2_c self = (m0 / A, m1 / A, m2 / A) \<and> v2_n self = n
       \<and> A \<noteq> 0"
  using assms
  by (auto simp: VelIn2Para_init_def bindE_def step_number_def Let_def split: if_splits)

text \<open>
  C6, as the code has it. The stored waveform sample is \<open>q\<close> and the radius is positive
  (the constructor sets it to \<open>sqrt (A / \<pi>)\<close> and the barycenter to the first moments
  over \<open>A\<close>). Then \<open>eval\<close> returns \<open>- n * q * (1 - r\<^sup>2 / R\<^sup>2) * s\<close>, where \<open>s\<close> is the
  sigmoid \<open>- 0.5 * cos (\<pi> * t / vel_t_ramp) + 0.5\<close> whenever \<open>t < vel_t_ramp\<close> and
  \<open>vel_t_ramp > 0\<close> (the code tests no lower bound on \<open>t\<close>), and 1 otherwise; for
  \<open>t \<ge> 0\<close> this \<open>s\<close> is the specification's. The value vanishes where \<open>r = R\<close>, the
  factor \<open>1 - r\<^sup>2 / R\<^sup>2\<close> is largest at the barycenter, and the value at \<open>t = 0\<close> is zero
  when \<open>vel_t_ramp > 0\<close>. The same holds for \<open>VelIn2Para\<close>.
\<close>

theorem VelInPara_eval_profile:
  assumes q1: "py_index (v1_interp_PA u1) (v1_number u1) = Inr q1"
      and q2: "py_index (v2_interp_DA u2) (v2_number u2) = Inr q2"
      and r1: "0 < v1_r u1" and r2: "0 < v2_r u2"
  shows "VelIn1Para_eval u1 x =
           Inr (scale3 (- (q1 * (1 - dist2 x (v1_c u1) / (v1_r u1)\<^sup>2)
                  * (if v1_t u1 < v1_t_ramp u1 \<and> v1_t_ramp u1 > 0
                     then - 0.5 * cos (pi * v1_t u1 / v1_t_ramp u1) + 0.5 else 1)))
                (v1_n u1))
       \<and> VelIn2Para_eval u2 x =
           Inr (scale3 (- (q2 * (1 - dist2 x (v2_c u2) / (v2_r u2)\<^sup>2)
                  * (if v2_t u2 < v2_t_ramp u2 \<and> v2_t_ramp u2 > 0
                     then - 0.5 * cos (pi * v2_t u2 / v2_t_ramp u2) + 0.5 else 1)))
                (v2_n u2))
       \<and> (0 \<le> v1_t u1 \<longrightarrow>
            (if v1_t u1 < v1_t_ramp u1 \<and> v1_t_ramp u1 > 0
             then - 0.5 * cos (pi * v1_t u1 / v1_t_ramp u1) + 0.5 else 1)
            = claimed_ramp (v1_t u1) (v1_t_ramp u1))
       \<and> (0 \<le> v2_t u2 \<longrightarrow>
            (if v2_t u2 < v2_t_ramp u2 \<and> v2_t_ramp u2 > 0
             then - 0.5 * cos (pi * v2_t u2 / v2_t_ramp u2) + 0.5 else 1)
            = claimed_ramp (v2_t u2) (v2_t_ramp u2))
       \<and> (dist2 x (v1_c u1) = (v1_r u1)\<^sup>2 \<longrightarrow> VelIn1Para_eval u1 x = Inr (0, 0, 0))
       \<and> (dist2 x (v2_c u2) = (v2_r u2)\<^sup>2 \<longrightarrow> VelIn2Para_eval u2 x = Inr (0, 0, 0))
       \<and> 1 - dist2 x (v1_c u1) / (v1_r u1)\<^sup>2 \<le> 1 - dist2 (v1_c u1) (v1_c u1) / (v1_r u1)\<^sup>2
       \<and> 1 - dist2 x (v2_c u2) / (v2_r u2)\<^sup>2 \<le> 1 - dist2 (v2_c u2) (v2_c u2) / (v2_r u2)\<^sup>2
       \<and> (v1_t u1 = 0 \<and> v1_t_ramp u1 > 0 \<longrightarrow> VelIn1Para_eval u1 x = Inr (0, 0, 0))
       \<and> (v2_t u2 = 0 \<and> v2_t_ramp u2 > 0 \<longrightarrow> VelIn2Para_eval u2 x = Inr (0, 0, 0))"
proof -
  note f1 = VelIn1Para_eval_formula [OF q1, of x]
  note f2 = VelIn2Para_eval_formula [OF q2, of x]
  have s1: "0 \<le> v1_t u1 \<longrightarrow>
            (if v1_t u1 < v1_t_ramp u1 \<and> v1_t_ramp u1 > 0
             then - 0.5 * cos (pi * v1_t u1 / v1_t_ramp u1) + 0.5 else 1)
            = claimed_ramp (v1_t u1) (v1_t_ramp u1)"
    by (simp add: claimed_ramp_def)
  have s2: "0 \<le> v2_t u2 \<longrightarrow>
            (if v2_t u2 < v2_t_ramp u2 \<and> v2_t_ramp u2 > 0
             then - 0.5 * cos (pi * v2_t u2 / v2_t_ramp u2) + 0.5 else 1)
            = claimed_ramp (v2_t u2) (v2_t_ramp u2)"
    by (simp add: claimed_ramp_def)
  have v1: "dist2 x (v1_c u1) = (v1_r u1)\<^sup>2 \<longrightarrow> VelIn1Para_eval u1 x = Inr (0, 0, 0)"
    using r1 by (simp add: f1 scale3_zero)
  have v2: "dist2 x (v2_c u2) = (v2_r u2)\<^sup>2 \<longrightarrow> VelIn2Para_eval u2 x = Inr (0, 0, 0)"
    using r2 by (simp add: f2 scale3_zero)
  have m1: "1 - dist2 x (v1_c u1) / (v1_r u1)\<^sup>2 \<le> 1 - dist2 (v1_c u1) (v1_c u1) / (v1_r u1)\<^sup>2"
    using dist2_nonneg [of x "v1_c u1"] by (simp add: dist2_self)
  have m2: "1 - dist2 x (v2_c u2) / (v2_r u2)\<^sup>2 \<le> 1 - dist2 (v2_c u2) (v2_c u2) / (v2_r u2)\<^sup>2"
    using dist2_nonneg [of x "v2_c u2"] by (simp add: dist2_self)
  have z1: "v1_t u1 = 0 \<and> v1_t_ramp u1 > 0 \<longrightarrow> VelIn1Para_eval u1 x = Inr (0, 0, 0)"
    by (simp add: f1 scale3_zero)
  have z2: "v2_t u2 = 0 \<and> v2_t_ramp u2 > 0 \<longrightarrow> VelIn2Para_eval u2 x = Inr (0, 0, 0)"
    by (simp add: f2 scale3_zero)
  show ?thesis
    using f1 f2 s1 s2 v1 v2 m1 m2 z1 z2 by (intro conjI)
qed

theorem VelInPara_eval_profile_witness:
  "py_index (v1_interp_PA (example_VelIn1Para 1 2 1)) (v1_number (example_VelIn1Para 1 2 1)) = Inr 2
 \<and> py_index (v2_interp_DA (example_VelIn2Para 1 2 1)) (v2_number (example_VelIn2Para 1 2 1)) = Inr 5
 \<and> 0 < v1_r (example_VelIn1Para 1 2 1) \<and> 0 < v2_r (example_VelIn2Para 1 2 1)
 \<and> VelIn1Para_eval (example_VelIn1Para 1 2 1) (0, 0, 0) = Inr (- 1, 0, 0)
 \<and> VelIn2Para_eval (example_VelIn2Para 1 2 1) (0, 0, 0) = Inr (0, - (5 / 2), 0)
 \<and> VelIn1Para_eval (example_VelIn1Para 1 2 1) (0, 1, 0) = Inr (0, 0, 0)"
proof -
  have q1: "py_index (v1_interp_PA (example_VelIn1Para 1 2 1)) (v1_number (example_VelIn1Para 1 2 1)) = Inr 2"
    by (simp add: example_VelIn1Para_def py_index_def)
  have q2: "py_index (v2_interp_DA (example_VelIn2Para 1 2 1)) (v2_number (example_VelIn2Para 1 2 1)) = Inr 5"
    by (simp add: example_VelIn2Para_def py_index_def)
  have r1: "0 < v1_r (example_VelIn1Para 1 2 1)" by (simp add: example_VelIn1Para_def)
  have r2: "0 < v2_r (example_VelIn2Para 1 2 1)" by (simp add: example_VelIn2Para_def)
  have a: "VelIn1Para_eval (example_VelIn1Para 1 2 1) (0, 0, 0) = Inr (- 1, 0, 0)"
    using VelInPara_eval_profile [OF q1 q2 r1 r2, of "(0, 0, 0)"]
    by (simp add: example_VelIn1Para_def dist2_def scale3_def)
  have b: "VelIn2Para_eval (example_VelIn2Para 1 2 1) (0, 0, 0) = Inr (0, - (5 / 2), 0)"
    using VelInPara_eval_profile [OF q1 q2 r1 r2, of "(0, 0, 0)"]
    by (simp add: example_VelIn2Para_def dist2_def scale3_def)
  have c: "VelIn1Para_eval (example_VelIn1Para 1 2 1) (0, 1, 0) = Inr (0, 0, 0)"
    using VelInPara_eval_profile [OF q1 q2 r1 r2, of "(0, 1, 0)"]
    by (simp add: example_VelIn1Para_def dist2_def scale3_def)
  show ?thesis using q1 q2 r1 r2 a b c by (intro conjI)
qed

text \<open>
  C6 as stated fails in two places. With \<open>vel_t_ramp = 0\<close> the guard \<open>t_ramp > 0\<close>
  switches the ramp off, and the value at \<open>t = 0\<close> at the barycenter is the full profile
  \<open>- n * interp[0]\<close>, not zero. With \<open>t = - 1\<close> and \<open>vel_t_ramp = 2\<close> the code applies the
  sigmoid (\<open>s = 1 / 2\<close>), where the stated \<open>s\<close> is 1.
\<close>

theorem VelInPara_eval_counterexample:
  "v1_t (example_VelIn1Para 0 0 0) = 0
 \<and> VelIn1Para_eval (example_VelIn1Para 0 0 0) (0, 0, 0) = Inr (- 1, 0, 0)
 \<and> VelIn1Para_eval (example_VelIn1Para (- 1) 2 0) (0, 0, 0) = Inr (- (1 / 2), 0, 0)
 \<and> scale3 (- (1 * (1 - dist2 (0, 0, 0) (v1_c (example_VelIn1Para (- 1) 2 0))
                       / (v1_r (example_VelIn1Para (- 1) 2 0))\<^sup>2)
              * claimed_ramp (- 1) 2)) (v1_n (example_VelIn1Para (- 1) 2 0)) = (- 1, 0, 0)"
  by (simp add: VelIn1Para_eval_def example_VelIn1Para_def bindE_def py_index_def Let_def
      claimed_ramp_def dist2_def scale3_def)

subsection \<open>The pressure ramp\<close>

lemma InnerP_eval_clamp:
  assumes idx: "py_index (ip_interp_P self) (ip_number self) = Inr p"
      and lt: "ip_p_t_ramp_start self < ip_p_t_ramp_end self"
  shows "InnerP_eval (self\<lparr>ip_t := t\<rparr>) =
           Inr (p * (- 0.5 * cos ((pi / (ip_p_t_ramp_end self - ip_p_t_ramp_start self))
                 * (max (ip_p_t_ramp_start self) (min (ip_p_t_ramp_end self) t)
                    - ip_p_t_ramp_start self)) + 0.5))"
  using idx lt by (auto simp: InnerP_eval_def bindE_def max_def min_def)

lemma ramp_continuous:
  fixes a b p :: real
  shows "continuous_on UNIV
           (\<lambda>t. p * (- 0.5 * cos ((pi / (b - a)) * (max a (min b t) - a)) + 0.5))"
  by (intro continuous_intros)

text \<open>
  C7. Let \<open>p\<close> be the stored waveform sample \<open>interp_P[number]\<close>. At every time \<open>t\<close>,
  \<open>eval\<close> returns 0 before the ramp start, whatever the ramp end is; \<open>p\<close> times the
  sigmoid from the start on and before the end; and \<open>p\<close> from the ramp end on when \<open>t\<close> is
  not before the start. When the start lies before the end the value is 0 at the ramp
  start, it is a continuous function of the time, equal to \<open>p\<close> from the end on, and for
  \<open>p \<ge> 0\<close> it never falls. When start and end coincide the value steps from 0 to \<open>p\<close>
  there.
\<close>

theorem InnerP_eval_ramp:
  assumes idx: "py_index (ip_interp_P self) (ip_number self) = Inr p"
  shows "(t < ip_p_t_ramp_start self \<longrightarrow> InnerP_eval (self\<lparr>ip_t := t\<rparr>) = Inr 0)
       \<and> (ip_p_t_ramp_start self \<le> t \<and> t < ip_p_t_ramp_end self \<longrightarrow>
            InnerP_eval (self\<lparr>ip_t := t\<rparr>) =
              Inr (p * (- 0.5 * cos (pi * (t - ip_p_t_ramp_start self)
                                      / (ip_p_t_ramp_end self - ip_p_t_ramp_start self)) + 0.5)))
       \<and> (ip_p_t_ramp_start self \<le> t \<and> ip_p_t_ramp_end self \<le> t \<longrightarrow>
            InnerP_eval (self\<lparr>ip_t := t\<rparr>) = Inr p)
       \<and> (ip_p_t_ramp_start self = ip_p_t_ramp_end self \<longrightarrow>
            InnerP_eval (self\<lparr>ip_t := ip_p_t_ramp_start self\<rparr>) = Inr p)
       \<and> (ip_p_t_ramp_start self < ip_p_t_ramp_end self \<longrightarrow>
            InnerP_eval (self\<lparr>ip_t := ip_p_t_ramp_start self\<rparr>) = Inr 0
          \<and> continuous_on UNIV (\<lambda>u. projr (InnerP_eval (self\<lparr>ip_t := u\<rparr>)))
          \<and> (\<forall>u v. 0 \<le> p \<and> u \<le> v \<longrightarrow>
                projr (InnerP_eval (self\<lparr>ip_t := u\<rparr>))
                  \<le> projr (InnerP_eval (self\<lparr>ip_t := v\<rparr>))))"
proof -
  let ?a = "ip_p_t_ramp_start self" and ?b = "ip_p_t_ramp_end self"
  have c1: "t < ?a \<longrightarrow> InnerP_eval (self\<lparr>ip_t := t\<rparr>) = Inr 0"
    by (simp add: InnerP_eval_def)
  have c2: "?a \<le> t \<and> t < ?b \<longrightarrow> InnerP_eval (self\<lparr>ip_t := t\<rparr>) =
              Inr (p * (- 0.5 * cos (pi * (t - ?a) / (?b - ?a)) + 0.5))"
    using idx by (simp add: InnerP_eval_def bindE_def)
  have c3: "?a \<le> t \<and> ?b \<le> t \<longrightarrow> InnerP_eval (self\<lparr>ip_t := t\<rparr>) = Inr p"
    using idx by (simp add: InnerP_eval_def)
  have c3': "?a = ?b \<longrightarrow> InnerP_eval (self\<lparr>ip_t := ?a\<rparr>) = Inr p"
    using idx by (simp add: InnerP_eval_def)
  have c4: "InnerP_eval (self\<lparr>ip_t := ?a\<rparr>) = Inr 0" if "?a < ?b"
    using idx that by (simp add: InnerP_eval_def bindE_def)
  have c5: "continuous_on UNIV (\<lambda>u. projr (InnerP_eval (self\<lparr>ip_t := u\<rparr>)))" if "?a < ?b"
    unfolding InnerP_eval_clamp [OF idx that] sum.sel by (rule ramp_continuous)
  have c6: "projr (InnerP_eval (self\<lparr>ip_t := u\<rparr>)) \<le> projr (InnerP_eval (self\<lparr>ip_t := v\<rparr>))"
    if "?a < ?b" "0 \<le> p" "u \<le> v" for u v
  proof -
    let ?g = "\<lambda>w. (pi / (?b - ?a)) * (max ?a (min ?b w) - ?a)"
    have k: "0 < pi / (?b - ?a)" using that(1) by simp
    have g0: "0 \<le> ?g u" using that(1) k by (intro mult_nonneg_nonneg) auto
    have guv: "?g u \<le> ?g v"
      using that(1,3) k by (intro mult_left_mono) (auto simp: max_def min_def)
    have "?g v \<le> (pi / (?b - ?a)) * (?b - ?a)"
      using that(1) k by (intro mult_left_mono) (auto simp: max_def min_def)
    then have gpi: "?g v \<le> pi" using that(1) by simp
    have "cos (?g v) \<le> cos (?g u)" by (rule cos_monotone_0_pi_le [OF g0 guv gpi])
    then have "p * (- 0.5 * cos (?g u) + 0.5) \<le> p * (- 0.5 * cos (?g v) + 0.5)"
      using that(2) by (intro mult_left_mono) auto
    then show ?thesis by (simp add: InnerP_eval_clamp [OF idx that(1)])
  qed
  show ?thesis using c1 c2 c3 c3' c4 c5 c6 by blast
qed

theorem InnerP_eval_ramp_witness:
  "py_index (ip_interp_P (example_InnerP 0 1)) (ip_number (example_InnerP 0 1)) = Inr 8
 \<and> InnerP_eval (example_InnerP 0 1) = Inr 0
 \<and> InnerP_eval (example_InnerP 2 1) = Inr 4
 \<and> InnerP_eval (example_InnerP 5 1) = Inr 8"
proof -
  have idx: "py_index (ip_interp_P (example_InnerP 0 1)) (ip_number (example_InnerP 0 1)) = Inr 8"
    by (simp add: example_InnerP_def py_index_def)
  have a: "InnerP_eval (example_InnerP 0 1) = Inr 0"
    using InnerP_eval_ramp [OF idx, of 0] by (simp add: example_InnerP_def)
  have b: "InnerP_eval (example_InnerP 2 1) = Inr 4"
    using InnerP_eval_ramp [OF idx, of 2] by (simp add: example_InnerP_def)
  have c: "InnerP_eval (example_InnerP 5 1) = Inr 8"
    using InnerP_eval_ramp [OF idx, of 5] by (simp add: example_InnerP_def)
  show ?thesis using idx a b c by (intro conjI)
qed

text \<open>
  With the ramp start 3 after the ramp end 1, at the time 2, which is not before the ramp
  end, \<open>eval\<close> returns 0 and not the sample 8: the test against the ramp start comes
  first.
\<close>

theorem InnerP_eval_reversed_counterexample:
  "ip_p_t_ramp_end reversed_InnerP \<le> ip_t reversed_InnerP
 \<and> py_index (ip_interp_P reversed_InnerP) (ip_number reversed_InnerP) = Inr 8
 \<and> InnerP_eval reversed_InnerP = Inr 0
 \<and> InnerP_eval reversed_InnerP \<noteq> Inr 8"
  by (simp add: reversed_InnerP_def InnerP_eval_def py_index_def)

subsection \<open>Rounding to a double\<close>

lemma binade_eqI:
  assumes "- 1022 \<le> e" "power_int 2 e \<le> \<bar>x\<bar>" "\<bar>x\<bar> < power_int 2 (e + 1)"
  shows "binade x = e"
proof -
  have pos: "0 < \<bar>x\<bar>" using assms(2) by (smt (verit) zero_less_power_int)
  have p: "(2::real) powr (of_int k) = power_int 2 k" for k
    by (rule powr_real_of_int') auto
  have q: "(2::real) powr (real_of_int e + 1) = power_int 2 (e + 1)"
    using p [of "e + 1"] by simp
  have "(2::real) powr real_of_int e \<le> \<bar>x\<bar> \<and> \<bar>x\<bar> < 2 powr real_of_int (e + 1)"
    using assms(2,3) p [of e] q by simp
  then have "\<lfloor>log 2 \<bar>x\<bar>\<rfloor> = e"
    using floor_log_eq_powr_iff [OF pos, of 2 e] by simp
  then show ?thesis using assms(1) by (simp add: binade_def)
qed

lemma fl_eqI:
  assumes "- 1022 \<le> e" "power_int 2 e \<le> \<bar>x\<bar>" "\<bar>x\<bar> < power_int 2 (e + 1)"
      and "round_even (x / power_int 2 (e - 52)) = N"
  shows "fl x = of_int N * power_int 2 (e - 52)"
  using binade_eqI [OF assms(1-3)] assms(4) by (simp add: fl_def)


lemma fl_0: "fl 0 = 0"
  by (simp add: fl_def round_even_def)

lemma fl_1: "fl 1 = 1"
  using fl_eqI [of 0 1 "2 ^ 52"] by (simp add: round_even_def power_int_minus)

lemma fl_minus_10: "fl (- 10) = - 10"
  using fl_eqI [of 3 "- 10" "- 10 * 2 ^ 49"] by (simp add: round_even_def power_int_minus)

lemma step_number_0: "dt \<noteq> 0 \<Longrightarrow> step_number 0 dt = Inr 0"
  by (simp add: step_number_def fl_0 py_int_def)

subsection \<open>The waveform index stays in bounds\<close>

lemma update_valid_index:
  assumes "valid_index number interp" "paced_for t dt number interp"
      and "(if number + 1 < int (length interp)
            then bindE (step_number t dt) (\<lambda>k. Inr k) else Inr number) = Inr number'"
  shows "valid_index number' interp"
  using assms
  by (auto simp: valid_index_def paced_for_def bindE_def split: if_splits sum.splits)

lemma pre_solve_index_ok:
  assumes "index_ok e" "paced t e" "pre_solve t e = Inr e'"
  shows "index_ok e'"
proof -
  obtain u1 u2 p where e: "e = (u1, u2, p)" by (cases e)
  obtain u1' u2' p' where e': "e' = (u1', u2', p')" by (cases e')
  from assms(3) have a: "VelIn1Para_update u1 t = Inr u1'" "VelIn2Para_update u2 t = Inr u2'"
      "InnerP_update p t = Inr p'"
    by (auto simp: e e' pre_solve_def bindE_def split: sum.splits)
  have 1: "valid_index (v1_number u1') (v1_interp_PA u1')"
  proof -
    have "(if v1_number u1 + 1 < int (length (v1_interp_PA u1))
           then bindE (step_number t (v1_dt u1)) (\<lambda>k. Inr k) else Inr (v1_number u1))
            = Inr (v1_number u1')"
         "v1_interp_PA u1' = v1_interp_PA u1"
      using a(1)
      by (auto simp: VelIn1Para_update_def Let_def bindE_def split: if_splits sum.splits)
    then show ?thesis
      using update_valid_index [of "v1_number u1" "v1_interp_PA u1" t "v1_dt u1"] assms(1,2)
      by (simp add: e index_ok_def paced_def)
  qed
  have 2: "valid_index (v2_number u2') (v2_interp_DA u2')"
  proof -
    have "(if v2_number u2 + 1 < int (length (v2_interp_DA u2))
           then bindE (step_number t (v2_dt u2)) (\<lambda>k. Inr k) else Inr (v2_number u2))
            = Inr (v2_number u2')"
         "v2_interp_DA u2' = v2_interp_DA u2"
      using a(2)
      by (auto simp: VelIn2Para_update_def Let_def bindE_def split: if_splits sum.splits)
    then show ?thesis
      using update_valid_index [of "v2_number u2" "v2_interp_DA u2" t "v2_dt u2"] assms(1,2)
      by (simp add: e index_ok_def paced_def)
  qed
  have 3: "valid_index (ip_number p') (ip_interp_P p')"
  proof -
    have "(if ip_number p + 1 < int (length (ip_interp_P p))
           then bindE (step_number t (ip_dt p)) (\<lambda>k. Inr k) else Inr (ip_number p))
            = Inr (ip_number p')"
         "ip_interp_P p' = ip_interp_P p"
      using a(3)
      by (auto simp: InnerP_update_def Let_def bindE_def split: if_splits sum.splits)
    then show ?thesis
      using update_valid_index [of "ip_number p" "ip_interp_P p" t "ip_dt p"] assms(1,2)
      by (simp add: e index_ok_def paced_def)
  qed
  show ?thesis using 1 2 3 by (simp add: e' index_ok_def)
qed

lemma simulation_index_ok: "simulation e0 e \<Longrightarrow> index_ok e0 \<Longrightarrow> index_ok e"
  by (induction rule: simulation.induct) (auto intro: pre_solve_index_ok)

lemma py_index_valid: "valid_index k xs \<Longrightarrow> \<exists>v. py_index xs k = Inr v"
  by (auto simp: valid_index_def py_index_def)

lemma index_ok_evals:
  assumes "index_ok (u1, u2, p)"
  shows "(\<exists>v. VelIn1Para_eval u1 x = Inr v) \<and> (\<exists>v. VelIn2Para_eval u2 x = Inr v)
       \<and> (\<exists>v. InnerP_eval p = Inr v)"
proof -
  from assms obtain q1 q2 q3 where
    i: "py_index (v1_interp_PA u1) (v1_number u1) = Inr q1"
       "py_index (v2_interp_DA u2) (v2_number u2) = Inr q2"
       "py_index (ip_interp_P p) (ip_number p) = Inr q3"
    using py_index_valid [of "v1_number u1" "v1_interp_PA u1"]
      py_index_valid [of "v2_number u2" "v2_interp_DA u2"]
      py_index_valid [of "ip_number p" "ip_interp_P p"]
    by (auto simp: index_ok_def)
  have 1: "\<exists>v. VelIn1Para_eval u1 x = Inr v"
    by (cases x; cases "v1_c u1"; cases "v1_n u1")
       (simp add: VelIn1Para_eval_def i bindE_def Let_def)
  have 2: "\<exists>v. VelIn2Para_eval u2 x = Inr v"
    by (cases x; cases "v2_c u2"; cases "v2_n u2")
       (simp add: VelIn2Para_eval_def i bindE_def Let_def)
  have 3: "\<exists>v. InnerP_eval p = Inr v"
    by (simp add: InnerP_eval_def i bindE_def)
  show ?thesis using 1 2 3 by blast
qed

text \<open>
  C8. An \<open>update\<close> leaves the stored index as it is unless \<open>number + 1 < len(interp)\<close>.
  At the time 0 of the constructor calls the stored index is 0. Let a simulation start
  from expressions whose stored indices are valid indices of their waveforms, and let
  every call of \<open>pre_solve\<close> be paced: the \<open>int(t / dt)\<close> that an \<open>update\<close> computes, in
  double precision, is at most one step past the stored index and not below minus the
  length of the waveform. Then in every state the simulation reaches, each stored index
  is below the length of its waveform and not below minus that length, and each \<open>eval\<close>
  returns a value, so none raises \<open>IndexError\<close>.
\<close>

theorem waveform_index_stays_in_bounds:
  assumes "index_ok e0" and "simulation e0 (u1, u2, p)"
  shows "(\<not> v1_number a1 + 1 < int (length (v1_interp_PA a1)) \<longrightarrow>
            (\<exists>a. VelIn1Para_update a1 t = Inr a \<and> v1_number a = v1_number a1))
       \<and> (\<not> v2_number a2 + 1 < int (length (v2_interp_DA a2)) \<longrightarrow>
            (\<exists>a. VelIn2Para_update a2 t = Inr a \<and> v2_number a = v2_number a2))
       \<and> (\<not> ip_number a3 + 1 < int (length (ip_interp_P a3)) \<longrightarrow>
            (\<exists>a. InnerP_update a3 t = Inr a \<and> ip_number a = ip_number a3))
       \<and> (dt \<noteq> 0 \<longrightarrow> step_number 0 dt = Inr 0)
       \<and> v1_number u1 < int (length (v1_interp_PA u1))
       \<and> v2_number u2 < int (length (v2_interp_DA u2))
       \<and> ip_number p < int (length (ip_interp_P p))
       \<and> - int (length (v1_interp_PA u1)) \<le> v1_number u1
       \<and> - int (length (v2_interp_DA u2)) \<le> v2_number u2
       \<and> - int (length (ip_interp_P p)) \<le> ip_number p
       \<and> (\<exists>v. VelIn1Para_eval u1 x = Inr v)
       \<and> (\<exists>v. VelIn2Para_eval u2 x = Inr v)
       \<and> (\<exists>v. InnerP_eval p = Inr v)"
proof -
  have ok: "index_ok (u1, u2, p)" using assms by (rule simulation_index_ok [rotated])
  have f1: "\<not> v1_number a1 + 1 < int (length (v1_interp_PA a1)) \<longrightarrow>
            (\<exists>a. VelIn1Para_update a1 t = Inr a \<and> v1_number a = v1_number a1)"
    by (simp add: VelIn1Para_update_def Let_def)
  have f2: "\<not> v2_number a2 + 1 < int (length (v2_interp_DA a2)) \<longrightarrow>
            (\<exists>a. VelIn2Para_update a2 t = Inr a \<and> v2_number a = v2_number a2)"
    by (simp add: VelIn2Para_update_def Let_def)
  have f3: "\<not> ip_number a3 + 1 < int (length (ip_interp_P a3)) \<longrightarrow>
            (\<exists>a. InnerP_update a3 t = Inr a \<and> ip_number a = ip_number a3)"
    by (simp add: InnerP_update_def Let_def)
  have f4: "dt \<noteq> 0 \<longrightarrow> step_number 0 dt = Inr 0"
    by (simp add: step_number_0)
  have b: "v1_number u1 < int (length (v1_interp_PA u1))
         \<and> v2_number u2 < int (length (v2_interp_DA u2))
         \<and> ip_number p < int (length (ip_interp_P p))
         \<and> - int (length (v1_interp_PA u1)) \<le> v1_number u1
         \<and> - int (length (v2_interp_DA u2)) \<le> v2_number u2
         \<and> - int (length (ip_interp_P p)) \<le> ip_number p"
    using ok by (simp add: index_ok_def valid_index_def)
  show ?thesis using f1 f2 f3 f4 b index_ok_evals [OF ok, of x] by blast
qed

lemma step_number_1_1: "step_number 1 1 = Inr 1"
  by (simp add: step_number_def fl_1 py_int_def)

lemma step_number_minus_10_1: "step_number (- 10) 1 = Inr (- 10)"
  by (simp add: step_number_def fl_minus_10 py_int_def)

theorem waveform_index_stays_in_bounds_witness:
  "index_ok (example_exprs 0 0)
 \<and> step_number 1 1 = Inr 1
 \<and> simulation (example_exprs 0 0) (example_exprs 1 1)
 \<and> v1_number (example_VelIn1Para 1 2 1) < int (length (v1_interp_PA (example_VelIn1Para 1 2 1)))
 \<and> (\<exists>v. VelIn1Para_eval (example_VelIn1Para 1 2 1) (0, 0, 0) = Inr v)
 \<and> (\<exists>v. InnerP_eval (example_InnerP 1 1) = Inr v)"
proof -
  have ok: "index_ok (example_exprs 0 0)"
    by (simp add: index_ok_def valid_index_def example_exprs_def example_VelIn1Para_def
        example_VelIn2Para_def example_InnerP_def)
  have pc: "paced 1 (example_exprs 0 0)"
    by (simp add: paced_def paced_for_def step_number_1_1 example_exprs_def
        example_VelIn1Para_def example_VelIn2Para_def example_InnerP_def)
  have ps: "pre_solve 1 (example_exprs 0 0) = Inr (example_exprs 1 1)"
    by (simp add: pre_solve_def example_exprs_def example_VelIn1Para_def example_VelIn2Para_def
        example_InnerP_def VelIn1Para_update_def VelIn2Para_update_def InnerP_update_def
        bindE_def step_number_1_1 Let_def)
  have sim: "simulation (example_exprs 0 0)
               (example_VelIn1Para 1 2 1, example_VelIn2Para 1 2 1, example_InnerP 1 1)"
    using sim_step [OF sim_start pc ps] by (simp add: example_exprs_def)
  have sim': "simulation (example_exprs 0 0) (example_exprs 1 1)"
    using sim by (simp add: example_exprs_def)
  show ?thesis
    using ok sim' step_number_1_1
      waveform_index_stays_in_bounds [OF ok sim, of _ 0 _ _ 1 "(0, 0, 0)"]
    by blast
qed

text \<open>
  From the index 0 of three-sample waveforms with time step 1, a call of \<open>pre_solve\<close> at
  the time \<open>- 10\<close> computes \<open>int(t / dt) = - 10\<close>, which is not more than one step past
  the stored index; the stored indices become \<open>- 10\<close>, below the length 3, and the \<open>eval\<close>
  of the inlet velocity then raises \<open>IndexError\<close>.
\<close>

theorem waveform_index_negative_time_counterexample:
  "step_number (- 10) 1 = Inr (- 10)
 \<and> (- 10 :: int) \<le> v1_number (example_VelIn1Para 0 2 0) + 1
 \<and> (- 10 :: int) \<le> v2_number (example_VelIn2Para 0 2 0) + 1
 \<and> (- 10 :: int) \<le> ip_number (example_InnerP 0 0) + 1
 \<and> v1_number (example_VelIn1Para 0 2 0) < int (length (v1_interp_PA (example_VelIn1Para 0 2 0)))
 \<and> pre_solve (- 10) (example_exprs 0 0) = Inr (example_exprs (- 10) (- 10))
 \<and> v1_number (example_VelIn1Para (- 10) 2 (- 10))
      < int (length (v1_interp_PA (example_VelIn1Para (- 10) 2 (- 10))))
 \<and> VelIn1Para_eval (example_VelIn1Para (- 10) 2 (- 10)) (0, 0, 0) = Inl IndexError"
  by (simp add: step_number_minus_10_1 pre_solve_def example_exprs_def example_VelIn1Para_def
      example_VelIn2Para_def example_InnerP_def VelIn1Para_update_def VelIn2Para_update_def
      InnerP_update_def bindE_def Let_def VelIn1Para_eval_def py_index_def)

subsection \<open>The composite spectrogram is the mean of the components\<close>

lemma np_add_same_shape:
  assumes "nrows a = nrows b" "ncols a = ncols b"
  shows "\<exists>c. np_add a b = Inr c \<and> nrows c = nrows a \<and> ncols c = ncols a \<and> rectangular c
           \<and> (\<forall>i < nrows a. \<forall>j < ncols a.
                 arr_rows c ! i ! j = arr_rows a ! i ! j + arr_rows b ! i ! j)"
proof -
  let ?c = "\<lparr> ncols = ncols a,
              arr_rows = map (\<lambda>i. map (\<lambda>j.
                 arr_rows a ! broadcast_index (nrows a) i ! broadcast_index (ncols a) j
               + arr_rows b ! broadcast_index (nrows b) i ! broadcast_index (ncols b) j)
               [0..<ncols a]) [0..<nrows a] \<rparr>"
  have run: "np_add a b = Inr ?c"
    using assms by (simp add: np_add_def broadcast_size_def bindE_def)
  have sh: "nrows ?c = nrows a" "ncols ?c = ncols a" by (simp_all add: nrows_def)
  have rect: "rectangular ?c" by (simp add: rectangular_def list_all_iff)
  have nth: "arr_rows ?c ! i ! j = arr_rows a ! i ! j + arr_rows b ! i ! j"
    if "i < nrows a" "j < ncols a" for i j
    using that assms by (auto simp: broadcast_index_def)
  show ?thesis using run sh rect nth by blast
qed

lemma columns_from_1_nth:
  assumes "rectangular a" "i < nrows a" "j < ncols a - 1"
  shows "arr_rows (columns_from_1 a) ! i ! j = arr_rows a ! i ! (j + 1)"
proof -
  have "length (arr_rows a ! i) = ncols a"
    using assms(1,2) by (simp add: rectangular_def nrows_def list_all_length)
  then show ?thesis using assms(2,3) by (simp add: columns_from_1_def nrows_def)
qed

lemma loadtxt_two_dimensional:
  assumes "2 \<le> length rows" "2 \<le> c" "list_all (\<lambda>r. length r = c) rows"
  shows "loadtxt rows = Inr (Array2 \<lparr> ncols = c, arr_rows = rows \<rparr>)"
proof -
  have ne: "rows \<noteq> []" using assms(1) by auto
  then have hd: "length (hd rows) = c"
    using assms(3) by (cases rows) simp_all
  have all: "\<forall>r \<in> set rows. r \<noteq> []" using assms(2,3) by (auto simp: list_all_iff)
  then have f: "filter (\<lambda>r. r \<noteq> []) rows = rows" by simp
  have same: "list_all (\<lambda>r. length r = length (hd rows)) rows" using assms(3) hd by simp
  have n1: "length rows \<noteq> 1" using assms(1) by simp
  have c1: "length (hd rows) \<noteq> 1" using assms(2) hd by simp
  show ?thesis
    unfolding loadtxt_def f Let_def using ne same n1 c1 hd by simp
qed

text \<open>
  C5. Let the data of the three files have the same number of rows, at least two, and
  the same number of columns, at least two, so that \<open>np.loadtxt\<close> gives two-dimensional
  arrays of equal shape, and let \<open>ylim\<close> be bound. Then the function reaches its call of
  \<open>plot_spectrogram\<close>, with the bins of the header, the first column of the x data as
  frequencies, and a power matrix that has the rows of the data and one column less, its
  entry \<open>(i, j)\<close> being the arithmetic mean of the three components' entries
  \<open>(i, j + 1)\<close>. The function computes nothing else from the data: no magnitude, and no
  spectrogram of one.
\<close>

theorem create_spectrogram_composite_mean:
  assumes "2 \<le> n" "2 \<le> c"
      and "length x = n" "length y = n" "length z = n"
      and "list_all (\<lambda>r. length r = c) x" "list_all (\<lambda>r. length r = c) y"
          "list_all (\<lambda>r. length r = c) z"
  shows "\<exists>Pxx. create_spectrogram_composite (Some l) bins x y z
               = Inr \<lparr> pc_bins = bins, pc_freqs = map (\<lambda>r. r ! 0) x, pc_Pxx = Pxx, pc_ylim = l \<rparr>
           \<and> nrows Pxx = n \<and> ncols Pxx = c - 1 \<and> rectangular Pxx
           \<and> (\<forall>i < n. \<forall>j < c - 1.
                arr_rows Pxx ! i ! j = (x ! i ! (j + 1) + y ! i ! (j + 1) + z ! i ! (j + 1)) / 3)"
proof -
  let ?X = "\<lparr> ncols = c, arr_rows = x \<rparr>" and ?Y = "\<lparr> ncols = c, arr_rows = y \<rparr>"
  let ?Z = "\<lparr> ncols = c, arr_rows = z \<rparr>"
  have ld: "loadtxt x = Inr (Array2 ?X)" "loadtxt y = Inr (Array2 ?Y)" "loadtxt z = Inr (Array2 ?Z)"
    using assms by (simp_all add: loadtxt_two_dimensional)
  have rectX: "rectangular ?X" and rectY: "rectangular ?Y" and rectZ: "rectangular ?Z"
    using assms(6-8) by (simp_all add: rectangular_def)
  let ?x = "columns_from_1 ?X" and ?y = "columns_from_1 ?Y" and ?z = "columns_from_1 ?Z"
  let ?c = "c - 1"
  have sh: "nrows ?x = n" "nrows ?y = n" "nrows ?z = n" "ncols ?x = ?c" "ncols ?y = ?c"
      "ncols ?z = ?c"
    using assms(3-5) by (simp_all add: columns_from_1_def nrows_def)
  from np_add_same_shape [of ?x ?y] sh obtain xy where
    xy: "np_add ?x ?y = Inr xy" "nrows xy = n" "ncols xy = ?c"
        "\<forall>i < n. \<forall>j < ?c. arr_rows xy ! i ! j = arr_rows ?x ! i ! j + arr_rows ?y ! i ! j"
    by auto
  from np_add_same_shape [of xy ?z] sh xy(2,3) obtain xyz where
    xyz: "np_add xy ?z = Inr xyz" "nrows xyz = n" "ncols xyz = ?c" "rectangular xyz"
        "\<forall>i < n. \<forall>j < ?c. arr_rows xyz ! i ! j = arr_rows xy ! i ! j + arr_rows ?z ! i ! j"
    by auto
  let ?P = "np_divide xyz 3"
  have c0: "c \<noteq> 0" using assms(2) by simp
  have run: "create_spectrogram_composite (Some l) bins x y z
               = Inr \<lparr> pc_bins = bins, pc_freqs = map (\<lambda>r. r ! 0) x, pc_Pxx = ?P, pc_ylim = l \<rparr>"
    using c0
    by (simp add: create_spectrogram_composite_def ld index_first_column_def
        index_columns_from_1_def first_column_def bindE_def xy(1) xyz(1))
  have shP: "nrows ?P = n" "ncols ?P = ?c"
    using xyz(2,3) by (simp_all add: np_divide_def nrows_def)
  have rect: "rectangular ?P"
    using xyz(4) by (simp add: rectangular_def np_divide_def list_all_iff)
  have entry: "arr_rows ?P ! i ! j = (x ! i ! (j + 1) + y ! i ! (j + 1) + z ! i ! (j + 1)) / 3"
    if "i < n" "j < ?c" for i j
  proof -
    have len: "i < length (arr_rows xyz)" "j < length (arr_rows xyz ! i)"
      using that xyz(2,3,4) by (simp_all add: nrows_def rectangular_def list_all_length)
    have "arr_rows ?P ! i ! j = arr_rows xyz ! i ! j / 3"
      using len by (simp add: np_divide_def)
    also have "\<dots> = (arr_rows ?x ! i ! j + arr_rows ?y ! i ! j + arr_rows ?z ! i ! j) / 3"
      using that xy(4) xyz(5) by simp
    finally show ?thesis
      using columns_from_1_nth [OF rectX, of i j] columns_from_1_nth [OF rectY, of i j]
        columns_from_1_nth [OF rectZ, of i j] that assms(3-5)
      by (simp add: nrows_def)
  qed
  show ?thesis using run shP rect entry by blast
qed

theorem create_spectrogram_composite_mean_witness:
  "(2 :: nat) \<le> 2 \<and> (2 :: nat) \<le> 3
 \<and> length (arr_rows (example_csv 1)) = 2 \<and> length (arr_rows (example_csv 2)) = 2
 \<and> length (arr_rows (example_csv 6)) = 2
 \<and> list_all (\<lambda>r. length r = 3) (arr_rows (example_csv 1))
 \<and> list_all (\<lambda>r. length r = 3) (arr_rows (example_csv 2))
 \<and> list_all (\<lambda>r. length r = 3) (arr_rows (example_csv 6))
 \<and> create_spectrogram_composite (Some 600) [0.5, 1.5] (arr_rows (example_csv 1))
       (arr_rows (example_csv 2)) (arr_rows (example_csv 6))
     = Inr \<lparr> pc_bins = [0.5, 1.5], pc_freqs = [10, 20],
             pc_Pxx = \<lparr> ncols = 2, arr_rows = [[3, 6], [9, 12]] \<rparr>, pc_ylim = 600 \<rparr>"
proof -
  have h: "(2 :: nat) \<le> 2" "(2 :: nat) \<le> 3"
      "length (arr_rows (example_csv 1)) = 2" "length (arr_rows (example_csv 2)) = 2"
      "length (arr_rows (example_csv 6)) = 2"
      "list_all (\<lambda>r. length r = 3) (arr_rows (example_csv 1))"
      "list_all (\<lambda>r. length r = 3) (arr_rows (example_csv 2))"
      "list_all (\<lambda>r. length r = 3) (arr_rows (example_csv 6))"
    by (simp_all add: example_csv_def)
  from create_spectrogram_composite_mean [OF h, of 600 "[0.5, 1.5]"] obtain Pxx where
    P: "create_spectrogram_composite (Some 600) [0.5, 1.5] (arr_rows (example_csv 1))
          (arr_rows (example_csv 2)) (arr_rows (example_csv 6))
          = Inr \<lparr> pc_bins = [0.5, 1.5], pc_freqs = map (\<lambda>r. r ! 0) (arr_rows (example_csv 1)),
                  pc_Pxx = Pxx, pc_ylim = 600 \<rparr>"
       "nrows Pxx = 2" "ncols Pxx = 3 - 1" "rectangular Pxx"
       "\<forall>i < 2. \<forall>j < 3 - 1. arr_rows Pxx ! i ! j
           = (arr_rows (example_csv 1) ! i ! (j + 1) + arr_rows (example_csv 2) ! i ! (j + 1)
              + arr_rows (example_csv 6) ! i ! (j + 1)) / 3"
    by blast
  have "create_spectrogram_composite (Some 600) [0.5, 1.5] (arr_rows (example_csv 1))
          (arr_rows (example_csv 2)) (arr_rows (example_csv 6))
     = Inr \<lparr> pc_bins = [0.5, 1.5], pc_freqs = [10, 20],
             pc_Pxx = \<lparr> ncols = 2, arr_rows = [[3, 6], [9, 12]] \<rparr>, pc_ylim = 600 \<rparr>"
    by (simp add: create_spectrogram_composite_def loadtxt_def index_first_column_def
        index_columns_from_1_def first_column_def columns_from_1_def np_add_def
        np_divide_def broadcast_size_def broadcast_index_def bindE_def nrows_def example_csv_def
        upt_rec numeral_eq_Suc)
  then show ?thesis using h P(1) by simp
qed

text \<open>
  Three files with one data row each load as one-dimensional arrays of the same shape,
  and the function raises \<open>IndexError\<close> at \<open>csv_x_data[:,0]\<close>: it plots no mean.
\<close>

theorem create_spectrogram_composite_one_row_counterexample:
  "loadtxt [[10, 1, 2]] = Inr (Array1 [10, 1, 2])
 \<and> loadtxt [[10, 2, 4]] = Inr (Array1 [10, 2, 4])
 \<and> loadtxt [[10, 6, 12]] = Inr (Array1 [10, 6, 12])
 \<and> create_spectrogram_composite (Some 600) [0.5, 1.5] [[10, 1, 2]] [[10, 2, 4]] [[10, 6, 12]]
     = Inl IndexError"
  by (simp add: create_spectrogram_composite_def loadtxt_def index_first_column_def bindE_def)

subsection \<open>Renumbering the nodes of a domain\<close>

lemma strict_sorted_nth_ge:
  fixes xs :: "nat list"
  assumes "sorted_wrt (<) xs"
  shows "k < length xs \<Longrightarrow> k \<le> xs ! k"
proof (induction k)
  case 0
  then show ?case by simp
next
  case (Suc k)
  then have "k \<le> xs ! k" by simp
  moreover have "xs ! k < xs ! Suc k"
    using assms Suc.prems by (simp add: sorted_wrt_nth_less)
  ultimately show ?case by simp
qed

lemma rank_in_nth:
  fixes xs :: "nat list"
  assumes s: "sorted_wrt (<) xs" and k: "k < length xs"
  shows "rank_in (set xs) (xs ! k) = k"
proof -
  have d: "distinct xs" using s by (simp add: strict_sorted_iff)
  have "{u \<in> set xs. u < xs ! k} = set (take k xs)"
  proof (intro set_eqI iffI)
    fix u assume "u \<in> {u \<in> set xs. u < xs ! k}"
    then obtain j where j: "j < length xs" "xs ! j = u" "u < xs ! k"
      by (auto simp: in_set_conv_nth)
    have "j < k"
    proof (rule ccontr)
      assume "\<not> j < k"
      then have "k = j \<or> k < j" by auto
      then have "xs ! k \<le> xs ! j"
        using s j(1) by (auto simp: sorted_wrt_nth_less less_imp_le)
      then show False using j(2,3) by simp
    qed
    then show "u \<in> set (take k xs)"
      using j(1,2) k by (auto simp: in_set_conv_nth)
  next
    fix u assume "u \<in> set (take k xs)"
    then obtain j where "j < k" "xs ! j = u"
      using k by (auto simp: in_set_conv_nth)
    then show "u \<in> {u \<in> set xs. u < xs ! k}"
      using s k sorted_wrt_nth_less [of "(<)" xs j k] by auto
  qed
  moreover have "card (set (take k xs)) = k"
    using d k by (simp add: distinct_card)
  ultimately show ?thesis by (simp add: rank_in_def)
qed

lemma fix_topology_steps:
  fixes ids :: "nat list"
  assumes s: "sorted_wrt (<) ids" and cells: "set (concat cells) \<subseteq> set ids"
  shows "k \<le> length ids \<Longrightarrow>
         fold (\<lambda>node_id topology. np_where_eq topology (ids ! node_id) node_id) [0..<k] cells
           = map (map (\<lambda>v. if rank_in (set ids) v < k then rank_in (set ids) v else v)) cells"
proof (induction k)
  case 0
  then show ?case by (simp add: map_idI)
next
  case (Suc k)
  let ?r = "rank_in (set ids)"
  have k: "k < length ids" using Suc.prems by simp
  have ge: "k \<le> ids ! k" by (rule strict_sorted_nth_ge [OF s k])
  have entry: "(if (if ?r v < k then ?r v else v) = ids ! k then k
                else (if ?r v < k then ?r v else v))
             = (if ?r v < Suc k then ?r v else v)" if v: "v \<in> set ids" for v
  proof -
    obtain j where j: "j < length ids" "ids ! j = v"
      using v by (auto simp: in_set_conv_nth)
    have rv: "?r v = j" using rank_in_nth [OF s j(1)] j(2) by simp
    have eq: "v = ids ! k \<longleftrightarrow> j = k"
      using s j k by (auto simp: strict_sorted_iff nth_eq_iff_index_eq)
    show ?thesis using rv eq ge by auto
  qed
  have "fold (\<lambda>node_id topology. np_where_eq topology (ids ! node_id) node_id) [0..<Suc k] cells
      = np_where_eq (map (map (\<lambda>v. if ?r v < k then ?r v else v)) cells) (ids ! k) k"
    using Suc.IH k by simp
  also have "\<dots> = map (map (\<lambda>v. if ?r v < Suc k then ?r v else v)) cells"
    unfolding np_where_eq_def map_map comp_def
  proof (intro map_cong refl)
    fix c v assume "c \<in> set cells" "v \<in> set c"
    then have "v \<in> set ids" using cells by auto
    then show "(if (if ?r v < k then ?r v else v) = ids ! k then k
                else (if ?r v < k then ?r v else v))
             = (if ?r v < Suc k then ?r v else v)"
      by (rule entry)
  qed
  finally show ?case .
qed

lemma fix_topology_rank:
  fixes ids :: "nat list"
  assumes s: "sorted_wrt (<) ids" and cells: "set (concat cells) \<subseteq> set ids"
  shows "fix_topology ids cells = map (map (rank_in (set ids))) cells"
proof -
  have "fix_topology ids cells
      = map (map (\<lambda>v. if rank_in (set ids) v < length ids then rank_in (set ids) v else v)) cells"
    unfolding fix_topology_def by (rule fix_topology_steps [OF s cells]) simp
  also have "\<dots> = map (map (rank_in (set ids))) cells"
  proof (intro map_cong refl)
    fix c v assume "c \<in> set cells" "v \<in> set c"
    then have "v \<in> set ids" using cells by auto
    then obtain j where "j < length ids" "ids ! j = v" by (auto simp: in_set_conv_nth)
    then have "rank_in (set ids) v < length ids" using rank_in_nth [OF s, of j] by simp
    then show "(if rank_in (set ids) v < length ids then rank_in (set ids) v else v)
                 = rank_in (set ids) v"
      by simp
  qed
  finally show ?thesis .
qed
lemma domain_of_interest_renumbered:
  assumes len: "length (domains_values m) \<le> length (domain_topology m)"
      and rng: "\<forall>c \<in> set (domain_topology m). \<forall>v \<in> set c. v < length (domain_coordinates m)"
  shows "\<exists>out. domain_of_interest m d = Inr out \<and> renumbered m d out"
proof -
  let ?N = "nodes_of m d" and ?cells = "cells_of m d"
  let ?ids = "sorted_list_of_set ?N"
  have fin: "finite ?N" by (simp add: nodes_of_def)
  have s: "sorted_wrt (<) ?ids" by simp
  have set_ids: "set ?ids = ?N" using fin by simp
  have len_ids: "length ?ids = card ?N" by simp
  have rows: "take_rows (domain_topology m) (nonzero_eq (domains_values m) d) = Inr ?cells"
    using len by (auto simp: take_rows_def nonzero_eq_def cells_of_def list_all_iff)
  have uniq: "np_unique ?cells = ?ids"
    by (simp add: np_unique_def nodes_of_def)
  have sub: "set ?cells \<subseteq> set (domain_topology m)"
    using len by (auto simp: cells_of_def)
  have in_rng: "v < length (domain_coordinates m)" if "v \<in> ?N" for v
    using that rng sub by (auto simp: nodes_of_def)
  have coords: "take_rows (domain_coordinates m) ?ids
                  = Inr (map (\<lambda>v. domain_coordinates m ! v) ?ids)"
    using in_rng set_ids by (auto simp: take_rows_def list_all_iff)
  let ?coords = "map (\<lambda>v. domain_coordinates m ! v) ?ids"
  let ?topo = "fix_topology ?ids ?cells"
  have run: "domain_of_interest m d = Inr (?coords, ?topo)"
    by (simp add: domain_of_interest_def Let_def rows uniq coords bindE_def)
  have cells_sub: "set (concat ?cells) \<subseteq> set ?ids"
    using set_ids by (simp add: nodes_of_def)
  have topo: "?topo = map (map (rank_in ?N)) ?cells"
    using fix_topology_rank [OF s cells_sub] set_ids by simp
  have rank_nth: "rank_in ?N (?ids ! k) = k" if "k < card ?N" for k
    using rank_in_nth [OF s, of k] that set_ids len_ids by simp
  have pos: "\<exists>k < card ?N. ?ids ! k = v" if "v \<in> ?N" for v
    using that set_ids len_ids by (metis in_set_conv_nth)
  have row: "?coords ! rank_in ?N v = domain_coordinates m ! v" if "v \<in> ?N" for v
  proof -
    from pos [OF that] obtain k where k: "k < card ?N" "?ids ! k = v" by blast
    then have "rank_in ?N v = k" using rank_nth by blast
    then show ?thesis using k len_ids by simp
  qed
  have bij: "bij_betw (rank_in ?N) ?N {0..<card ?N}"
  proof (rule bij_betw_byWitness [where f' = "\<lambda>k. ?ids ! k"])
    show "\<forall>v \<in> ?N. ?ids ! rank_in ?N v = v"
      using pos rank_nth by metis
    show "\<forall>k \<in> {0..<card ?N}. rank_in ?N (?ids ! k) = k"
      using rank_nth by simp
    show "rank_in ?N ` ?N \<subseteq> {0..<card ?N}"
      using pos rank_nth by fastforce
    show "(\<lambda>k. ?ids ! k) ` {0..<card ?N} \<subseteq> ?N"
      using set_ids len_ids by (metis atLeastLessThan_iff image_subsetI nth_mem)
  qed
  have mono: "v < w \<longleftrightarrow> rank_in ?N v < rank_in ?N w" if "v \<in> ?N" "w \<in> ?N" for v w
  proof -
    from pos [OF that(1)] obtain a where a: "a < card ?N" "?ids ! a = v" by blast
    from pos [OF that(2)] obtain b where b: "b < card ?N" "?ids ! b = w" by blast
    have r: "rank_in ?N v = a" "rank_in ?N w = b" using a b rank_nth by blast+
    have "?ids ! a < ?ids ! b \<longleftrightarrow> a < b"
      using s a(1) b(1) len_ids
      by (metis sorted_wrt_nth_less nat_neq_iff order_less_asym)
    then show ?thesis using a(2) b(2) r by simp
  qed
  have "renumbered m d (?coords, ?topo)"
    unfolding renumbered_def prod.case
    using topo len_ids row bij mono by (intro conjI ballI) simp_all
  then show ?thesis using run by blast
qed

text \<open>
  C4. Let the mesh file have a cell for every domain marker and only node ids that are
  rows of the coordinate array. Then \<open>separate_domain\<close> leaves two files, for the fluid
  and the solid id; in each the topology holds exactly the cells of that domain, every
  node id replaced by its rank among the domain's node ids, coordinate row \<open>rank v\<close> is
  the original row of \<open>v\<close>, and the rank is an order-preserving bijection from the domain's
  node ids onto \<open>0, \<dots>, n - 1\<close>: the sequential replacement merges no two node ids.
\<close>

theorem separate_domain_renumbers:
  assumes "length (domains_values m) \<le> length (domain_topology m)"
      and "\<forall>c \<in> set (domain_topology m). \<forall>v \<in> set c. v < length (domain_coordinates m)"
  shows "\<exists>files fluid solid.
           separate_domain mesh_stem m fluid_domain_id solid_domain_id = Inr files
         \<and> files (mesh_stem @ ''_fluid.h5'') = Some fluid \<and> renumbered m fluid_domain_id fluid
         \<and> files (mesh_stem @ ''_solid.h5'') = Some solid \<and> renumbered m solid_domain_id solid"
proof -
  from domain_of_interest_renumbered [OF assms, of fluid_domain_id] obtain fluid where
    f: "domain_of_interest m fluid_domain_id = Inr fluid" "renumbered m fluid_domain_id fluid"
    by blast
  from domain_of_interest_renumbered [OF assms, of solid_domain_id] obtain solid where
    s: "domain_of_interest m solid_domain_id = Inr solid" "renumbered m solid_domain_id solid"
    by blast
  let ?files = "(Map.empty(mesh_stem @ ''_fluid.h5'' \<mapsto> fluid))(mesh_stem @ ''_solid.h5'' \<mapsto> solid)"
  have run: "separate_domain mesh_stem m fluid_domain_id solid_domain_id = Inr ?files"
    by (simp add: separate_domain_def f(1) s(1) bindE_def)
  have "?files (mesh_stem @ ''_fluid.h5'') = Some fluid" "?files (mesh_stem @ ''_solid.h5'') = Some solid"
    by simp_all
  then show ?thesis using run f(2) s(2) by blast
qed

theorem separate_domain_renumbers_witness:
  "length (domains_values example_h5_mesh) \<le> length (domain_topology example_h5_mesh)
 \<and> list_all (list_all (\<lambda>v. v < length (domain_coordinates example_h5_mesh)))
       (domain_topology example_h5_mesh)
 \<and> (\<exists>files. separate_domain ''mesh'' example_h5_mesh 5 7 = Inr files
      \<and> files ''mesh_fluid.h5''
          = Some ([(1, 0, 0), (2, 0, 0), (4, 0, 0), (5, 0, 0)], [[2, 0, 1, 3], [1, 3, 2, 0]])
      \<and> renumbered example_h5_mesh 5
          ([(1, 0, 0), (2, 0, 0), (4, 0, 0), (5, 0, 0)], [[2, 0, 1, 3], [1, 3, 2, 0]]))"
proof -
  have a: "length (domains_values example_h5_mesh) \<le> length (domain_topology example_h5_mesh)"
    by (simp add: example_h5_mesh_def)
  have b: "\<forall>c \<in> set (domain_topology example_h5_mesh). \<forall>v \<in> set c.
             v < length (domain_coordinates example_h5_mesh)"
    by (simp add: example_h5_mesh_def)
  have e: "domain_of_interest example_h5_mesh 5
             = Inr ([(1, 0, 0), (2, 0, 0), (4, 0, 0), (5, 0, 0)], [[2, 0, 1, 3], [1, 3, 2, 0]])"
    by code_simp
  from separate_domain_renumbers [OF a b, of "''mesh''" 5 7] obtain files fluid solid where
    r: "separate_domain ''mesh'' example_h5_mesh 5 7 = Inr files"
       "files (''mesh'' @ ''_fluid.h5'') = Some fluid" "renumbered example_h5_mesh 5 fluid"
    by blast
  have "files (''mesh'' @ ''_fluid.h5'')
          = Some ([(1, 0, 0), (2, 0, 0), (4, 0, 0), (5, 0, 0)], [[2, 0, 1, 3], [1, 3, 2, 0]])"
    using r(1) by (auto simp: separate_domain_def e bindE_def split: sum.splits)
  moreover have "list_all (list_all (\<lambda>v. v < length (domain_coordinates example_h5_mesh)))
                  (domain_topology example_h5_mesh)"
    by (simp add: example_h5_mesh_def)
  ultimately show ?thesis using a r by auto
qed

subsection \<open>The file system and the trace under the basic operations\<close>

lemma bindE_Inr_iff: "bindE m f = Inr y \<longleftrightarrow> (\<exists>x. m = Inr x \<and> f x = Inr y)"
  by (cases m) (simp_all add: bindE_def)

lemma emit_simps:
  "trace (emit g act s) = trace s @ [(g, act)]"
  "fs (emit g act s) = fs s"
  "gm_calls (emit g act s) = gm_calls s"
  "distance_to_sphere (emit g act s) = distance_to_sphere s"
  by (simp_all add: emit_def)

lemma write_polydata_simps:
  "trace (write_polydata g v p s) = trace s @ [(g, Write p)]"
  "fs (write_polydata g v p s) = (fs s)(p \<mapsto> v)"
  "gm_calls (write_polydata g v p s) = gm_calls s"
  "distance_to_sphere (write_polydata g v p s) = distance_to_sphere s"
  by (simp_all add: write_polydata_def emit_def)

lemma remove_existing_fs:
  "fs (remove_existing g files s) p = (if p \<in> set files then None else fs s p)"
proof (induction files arbitrary: s)
  case Nil
  then show ?case by (simp add: remove_existing_def)
next
  case (Cons f files)
  have step: "remove_existing g (f # files) s =
          remove_existing g files
            (if isfile s f then emit g (Remove f) (s\<lparr>fs := (fs s)(f := None)\<rparr>) else s)"
    by (simp add: remove_existing_def)
  show ?case
    unfolding step Cons.IH by (auto simp: isfile_def emit_def)
qed

lemma remove_existing_trace:
  "\<exists>es. trace (remove_existing g files s) = trace s @ es
        \<and> (\<forall>ev \<in> set es. \<exists>p \<in> set files. ev = (g, Remove p) \<and> p \<in> dom (fs s))"
proof (induction files arbitrary: s)
  case Nil
  then show ?case by (simp add: remove_existing_def)
next
  case (Cons f files)
  let ?s1 = "if isfile s f then emit g (Remove f) (s\<lparr>fs := (fs s)(f := None)\<rparr>) else s"
  have step: "remove_existing g (f # files) s = remove_existing g files ?s1"
    by (simp add: remove_existing_def)
  from Cons.IH [of ?s1] obtain es where
    es: "trace (remove_existing g files ?s1) = trace ?s1 @ es"
        "\<forall>ev \<in> set es. \<exists>p \<in> set files. ev = (g, Remove p) \<and> p \<in> dom (fs ?s1)"
    by blast
  have dom1: "dom (fs ?s1) \<subseteq> dom (fs s)" by (auto simp: emit_def split: if_splits)
  show ?case
  proof (cases "isfile s f")
    case True
    then have "trace (remove_existing g (f # files) s) = trace s @ ((g, Remove f) # es)"
      using es(1) step by (simp add: emit_def)
    moreover have "\<forall>ev \<in> set ((g, Remove f) # es).
                     \<exists>p \<in> set (f # files). ev = (g, Remove p) \<and> p \<in> dom (fs s)"
      using es(2) dom1 True by (auto simp: isfile_def)
    ultimately show ?thesis by blast
  next
    case False
    then have "trace (remove_existing g (f # files) s) = trace s @ es"
      using es(1) step by simp
    moreover have "\<forall>ev \<in> set es. \<exists>p \<in> set (f # files). ev = (g, Remove p) \<and> p \<in> dom (fs s)"
      using es(2) False by auto
    ultimately show ?thesis by blast
  qed
qed

subsection \<open>The final removal of files\<close>

text \<open>
  C10. The removal at the end of \<open>run_pre_processing\<close> always returns. Afterwards exactly
  the fourteen listed intermediate files are absent and every other file is as it was;
  each removal event is for a listed file that existed. The mesh files (\<open>.vtu\<close>, \<open>.xml\<close>,
  \<open>.xml.gz\<close>, \<open>.h5\<close>, \<open>.xdmf\<close>), the edge length file, the parameter file and the probe
  point file are not in the list, so they are as they were.
\<close>

theorem final_removal_keeps_outputs:
  "\<exists>s' es. stage_cleanup a s = Inr s'
     \<and> (fs s' p = (if p \<in> set (files_to_remove (base_path_of (input_model a)))
                   then None else fs s p))
     \<and> files_to_remove b =
         [b @ ''_centerlines.vtp'', b @ ''_refine_region_centerline.vtp'',
          b @ ''_sac_centerline_{}.vtp'', b @ ''_distance_to_sphere_diam.vtp'',
          b @ ''_distance_to_sphere_const.vtp'', b @ ''_distance_to_sphere_curv.vtp'',
          b @ ''_voronoi.vtp'', b @ ''_voronoi_smooth.vtp'', b @ ''_voronoi_surface.vtp'',
          b @ ''_smooth.vtp'', b @ ''_flowext.vtp'', b @ ''_clippedmodel.vtp'',
          b @ ''_flow_cl.vtp'', b @ ''_remeshed_surface.vtp'']
     \<and> trace s' = trace s @ es
     \<and> list_all (\<lambda>ev. \<exists>q. ev = (Cleanup, Remove q) \<and> fs s q \<noteq> None
                       \<and> q \<in> set (files_to_remove (base_path_of (input_model a)))) es
     \<and> set [file_name_vtu_mesh b, file_name_xml_mesh_of b, file_name_xml_mesh_of b @ ''.gz'',
            file_name_hdf5_mesh b, file_name_xdmf_mesh b, file_name_edge_length_xdmf b,
            file_name_parameters b, file_name_probe_points b]
         \<inter> set (files_to_remove b) = {}"
proof -
  let ?b = "base_path_of (input_model a)"
  let ?s' = "remove_existing Cleanup (files_to_remove ?b) s"
  from remove_existing_trace [of Cleanup "files_to_remove ?b" s] obtain es where
    es: "trace ?s' = trace s @ es"
        "\<forall>ev \<in> set es. \<exists>p \<in> set (files_to_remove ?b). ev = (Cleanup, Remove p) \<and> p \<in> dom (fs s)"
    by blast
  have 1: "stage_cleanup a s = Inr ?s'" by (simp add: stage_cleanup_def)
  have 2: "fs ?s' p = (if p \<in> set (files_to_remove ?b) then None else fs s p)"
    by (rule remove_existing_fs)
  have 3: "files_to_remove b =
         [b @ ''_centerlines.vtp'', b @ ''_refine_region_centerline.vtp'',
          b @ ''_sac_centerline_{}.vtp'', b @ ''_distance_to_sphere_diam.vtp'',
          b @ ''_distance_to_sphere_const.vtp'', b @ ''_distance_to_sphere_curv.vtp'',
          b @ ''_voronoi.vtp'', b @ ''_voronoi_smooth.vtp'', b @ ''_voronoi_surface.vtp'',
          b @ ''_smooth.vtp'', b @ ''_flowext.vtp'', b @ ''_clippedmodel.vtp'',
          b @ ''_flow_cl.vtp'', b @ ''_remeshed_surface.vtp'']"
    by (simp add: files_to_remove_def file_name_centerlines_def
        file_name_refine_region_centerlines_def file_name_region_centerlines_def
        file_name_distance_to_sphere_diam_def file_name_distance_to_sphere_const_def
        file_name_distance_to_sphere_curv_def file_name_voronoi_def file_name_voronoi_smooth_def
        file_name_voronoi_surface_def file_name_surface_smooth_def file_name_model_flow_ext_def
        file_name_clipped_model_def file_name_flow_centerlines_def file_name_surface_name_def)
  have 4: "list_all (\<lambda>ev. \<exists>q. ev = (Cleanup, Remove q) \<and> fs s q \<noteq> None
                       \<and> q \<in> set (files_to_remove ?b)) es"
    using es(2) by (auto simp: list_all_iff)
  have 5: "set [file_name_vtu_mesh b, file_name_xml_mesh_of b, file_name_xml_mesh_of b @ ''.gz'',
            file_name_hdf5_mesh b, file_name_xdmf_mesh b, file_name_edge_length_xdmf b,
            file_name_parameters b, file_name_probe_points b]
         \<inter> set (files_to_remove b) = {}"
    unfolding 3
    by (simp add: file_name_vtu_mesh_def file_name_xml_mesh_of_def file_name_hdf5_mesh_def
        file_name_xdmf_mesh_def file_name_edge_length_xdmf_def file_name_parameters_def
        file_name_probe_points_def)
  show ?thesis using 1 2 3 es(1) 4 5 by blast
qed

subsection \<open>Mesh generation: bounded retries, one fallback\<close>

lemma after_generate_calls_0: "after_generate_calls 0 d s = s"
  by (simp add: after_generate_calls_def)

lemma after_generate_calls_Suc:
  "after_generate_calls k d (emit MeshGen (Call ''generate_mesh'' [d]) (s\<lparr>gm_calls := gm_calls s + 1\<rparr>))
     = after_generate_calls (Suc k) d s"
  by (simp add: after_generate_calls_def emit_def replicate_append_same)

lemma after_generate_calls_simps:
  "gm_calls (after_generate_calls k d s) = gm_calls s + k"
  "trace (after_generate_calls k d s) = trace s @ replicate k (MeshGen, Call ''generate_mesh'' [d])"
  "fs (after_generate_calls k d s) = fs s"
  "distance_to_sphere (after_generate_calls k d s) = distance_to_sphere s"
  by (simp_all add: after_generate_calls_def)

lemma try_generate_mesh_cases:
  "generate_mesh e (gm_calls s) d = Raises_RuntimeError \<Longrightarrow>
     try_generate_mesh e d s = Inr (None, after_generate_calls 1 d s)"
  "generate_mesh e (gm_calls s) d = Returns m r \<Longrightarrow>
     try_generate_mesh e d s = Inr (Some (m, r), after_generate_calls 1 d s)"
  "generate_mesh e (gm_calls s) d = Raises_other \<Longrightarrow>
     try_generate_mesh e d s = Inl (UncaughtException, after_generate_calls 1 d s)"
  by (simp_all add: try_generate_mesh_def Let_def after_generate_calls_def emit_def)

lemma after_generate_calls_add:
  "after_generate_calls k d (after_generate_calls j d s) = after_generate_calls (j + k) d s"
  by (simp add: after_generate_calls_def replicate_add add.assoc)

lemma retry_loop_all_fail:
  "(\<forall>k < n. generate_mesh e (gm_calls s + k) d = Raises_RuntimeError) \<Longrightarrow>
     retry_loop e d n s = Inr (None, after_generate_calls n d s)"
proof (induction n arbitrary: s)
  case 0
  then show ?case by (simp add: after_generate_calls_0)
next
  case (Suc n)
  have first: "generate_mesh e (gm_calls s) d = Raises_RuntimeError"
    using Suc.prems by (metis add.right_neutral zero_less_Suc)
  let ?s1 = "after_generate_calls 1 d s"
  have "generate_mesh e (gm_calls ?s1 + k) d = Raises_RuntimeError" if "k < n" for k
    using Suc.prems [rule_format, of "Suc k"] that by (simp add: after_generate_calls_simps)
  then have "\<forall>k < n. generate_mesh e (gm_calls ?s1 + k) d = Raises_RuntimeError"
    by blast
  from Suc.IH [OF this] show ?case
    by (simp add: try_generate_mesh_cases(1) [OF first] bindE_def after_generate_calls_add)
qed

lemma retry_loop_success:
  "j < n \<Longrightarrow> (\<forall>k < j. generate_mesh e (gm_calls s + k) d = Raises_RuntimeError) \<Longrightarrow>
   generate_mesh e (gm_calls s + j) d = Returns m r \<Longrightarrow>
     retry_loop e d n s = Inr (Some (m, r), after_generate_calls (Suc j) d s)"
proof (induction n arbitrary: s j)
  case 0
  then show ?case by simp
next
  case (Suc n)
  show ?case
  proof (cases j)
    case 0
    then have "generate_mesh e (gm_calls s) d = Returns m r" using Suc.prems(3) by simp
    then show ?thesis
      using 0 by (simp add: try_generate_mesh_cases(2) bindE_def)
  next
    case (Suc i)
    have first: "generate_mesh e (gm_calls s) d = Raises_RuntimeError"
      using Suc.prems(2) Suc by (metis add.right_neutral zero_less_Suc)
    let ?s1 = "after_generate_calls 1 d s"
    have a: "i < n" using Suc.prems(1) Suc by simp
    have "generate_mesh e (gm_calls ?s1 + k) d = Raises_RuntimeError" if "k < i" for k
      using Suc.prems(2) [rule_format, of "Suc k"] that Suc
      by (simp add: after_generate_calls_simps)
    then have b: "\<forall>k < i. generate_mesh e (gm_calls ?s1 + k) d = Raises_RuntimeError"
      by blast
    have c: "generate_mesh e (gm_calls ?s1 + i) d = Returns m r"
      using Suc.prems(3) Suc by (simp add: after_generate_calls_simps)
    from Suc.IH [OF a b c] show ?thesis
      using Suc
      by (simp add: try_generate_mesh_cases(1) [OF first] bindE_def after_generate_calls_add)
  qed
qed

lemma retry_loop_bound:
  "retry_loop e d n s = Inr (x, s') \<Longrightarrow> gm_calls s' \<le> gm_calls s + n"
  "retry_loop e d n s = Inl (err, s') \<Longrightarrow> gm_calls s' \<le> gm_calls s + n"
proof (induction n arbitrary: s)
  case 0
  { case 1 then show ?case by simp }
  { case 2 then show ?case by simp }
next
  case (Suc n)
  { case 1
    then show ?case
      using Suc.IH(1) [of "after_generate_calls 1 d s"]
      by (cases "generate_mesh e (gm_calls s) d")
         (auto simp: try_generate_mesh_cases bindE_def after_generate_calls_simps
               split: option.splits) }
  { case 2
    then show ?case
      using Suc.IH(2) [of "after_generate_calls 1 d s"]
      by (cases "generate_mesh e (gm_calls s) d")
         (auto simp: try_generate_mesh_cases bindE_def after_generate_calls_simps
               split: option.splits) }
qed
lemma write_parameters_simps:
  "trace (write_parameters g ks b s) = trace s @ [(g, Write (b @ ''_info.json''))]"
  "gm_calls (write_parameters g ks b s) = gm_calls s"
  "mesh (write_parameters g ks b s) = mesh s"
  "p \<noteq> b @ ''_info.json'' \<Longrightarrow> fs (write_parameters g ks b s) p = fs s p"
  "fs (write_parameters g ks b s) (b @ ''_info.json'') \<noteq> None"
  by (simp_all add: write_parameters_def write_polydata_def emit_def)

lemma write_generated_mesh_result:
  assumes "file_name_xml_mesh s = file_name_xml_mesh_of (base_path_of (input_model a))"
  shows "fs (write_generated_mesh a r s) (file_name_vtu_mesh (base_path_of (input_model a)))
           = Some (mesh s)"
    and "fs (write_generated_mesh a r s) (file_name_surface_name (base_path_of (input_model a)))
           = Some r"
    and "mesh (write_generated_mesh a r s) = mesh s"
    and "gm_calls (write_generated_mesh a r s) = gm_calls s"
    and "\<exists>es. trace (write_generated_mesh a r s) = trace s @ es
              \<and> list_all (\<lambda>ev. \<exists>p. ev = (MeshGen, Write p)) es"
  using assms
  by (auto simp: write_generated_mesh_def write_mesh_def Let_def write_parameters_simps
      write_polydata_simps file_name_vtu_mesh_def file_name_surface_name_def
      file_name_xml_mesh_of_def write_polydata_def emit_def write_parameters_def)

lemma try_generate_mesh_calls:
  "try_generate_mesh e d s = Inr (x, s') \<Longrightarrow> gm_calls s' = gm_calls s + 1"
  "try_generate_mesh e d s = Inl (err, s') \<Longrightarrow> gm_calls s' = gm_calls s + 1"
  by (cases "generate_mesh e (gm_calls s) d";
      auto simp: try_generate_mesh_cases after_generate_calls_simps)+

lemma generate_with_fallback_bound:
  "generate_with_fallback a e s = Inr (ms, s') \<Longrightarrow>
     gm_calls s' \<le> gm_calls s + nat (mesh_generation_retries a + 1) + 1"
  "generate_with_fallback a e s = Inl (err, s') \<Longrightarrow>
     gm_calls s' \<le> gm_calls s + nat (mesh_generation_retries a + 1) + 1"
proof -
  let ?n = "nat (mesh_generation_retries a + 1)"
  have "gm_calls (final_state (case generate_with_fallback a e s of
                                 Inl x \<Rightarrow> Inl x | Inr (ms, s') \<Rightarrow> Inr s'))
          \<le> gm_calls s + ?n + 1"
  proof (cases "distance_to_sphere s")
    case None
    then show ?thesis by (simp add: generate_with_fallback_def final_state_def)
  next
    case (Some d)
    show ?thesis
    proof (cases "retry_loop e d ?n s")
      case (Inl x)
      obtain err s1 where x: "x = (err, s1)" by (cases x)
      show ?thesis
        using Some Inl x retry_loop_bound(2) [of e d ?n s err s1]
        by (simp add: generate_with_fallback_def bindE_def final_state_def)
    next
      case (Inr y)
      obtain res s1 where y: "y = (res, s1)" by (cases y)
      have le: "gm_calls s1 \<le> gm_calls s + ?n"
        using retry_loop_bound(1) [of e d ?n s res s1] Inr y by simp
      show ?thesis
      proof (cases res)
        case (Some ms)
        then show ?thesis
          using \<open>distance_to_sphere s = Some d\<close> Inr y le
          by (simp add: generate_with_fallback_def bindE_def final_state_def split: prod.splits)
      next
        case None
        let ?alt = "Obj ''mesh_alternative'' [d]"
        let ?s2 = "(emit MeshGen (Call ''mesh_alternative'' [d]) s1)
                     \<lparr>distance_to_sphere := Some ?alt\<rparr>"
        have c2: "gm_calls ?s2 = gm_calls s1" by (simp add: emit_def)
        have g: "generate_with_fallback a e s =
                   bindE (try_generate_mesh e ?alt ?s2)
                     (\<lambda>(mesh_and_surface, s).
                        case mesh_and_surface of Some ms \<Rightarrow> Inr (ms, s)
                        | None \<Rightarrow> Inl (SystemExit (- 1), s))"
          using \<open>distance_to_sphere s = Some d\<close> Inr y None
          by (simp add: generate_with_fallback_def bindE_def call_def)
        show ?thesis
        proof (cases "try_generate_mesh e ?alt ?s2")
          case (Inl x)
          obtain err s3 where x: "x = (err, s3)" by (cases x)
          show ?thesis
            using g Inl x try_generate_mesh_calls(2) [of e ?alt ?s2 err s3] c2 le
            by (simp add: bindE_def final_state_def)
        next
          case (Inr z)
          obtain res3 s3 where z: "z = (res3, s3)" by (cases z)
          show ?thesis
            using g Inr z try_generate_mesh_calls(1) [of e ?alt ?s2 res3 s3] c2 le
            by (cases res3) (auto simp: bindE_def final_state_def)
        qed
      qed
    qed
  qed
  then show "generate_with_fallback a e s = Inr (ms, s') \<Longrightarrow> gm_calls s' \<le> gm_calls s + ?n + 1"
    and "generate_with_fallback a e s = Inl (err, s') \<Longrightarrow> gm_calls s' \<le> gm_calls s + ?n + 1"
    by (simp_all add: final_state_def)
qed

lemma try_generate_mesh_frame:
  "try_generate_mesh e d s = Inr (x, s') \<Longrightarrow>
     file_name_xml_mesh s' = file_name_xml_mesh s \<and> fs s' = fs s"
  by (cases "generate_mesh e (gm_calls s) d")
     (auto simp: try_generate_mesh_cases after_generate_calls_def)

lemma retry_loop_frame:
  "retry_loop e d n s = Inr (x, s') \<Longrightarrow>
     file_name_xml_mesh s' = file_name_xml_mesh s \<and> fs s' = fs s"
proof (induction n arbitrary: s)
  case 0
  then show ?case by simp
next
  case (Suc n)
  from Suc.prems obtain y s1 where
    t: "try_generate_mesh e d s = Inr (y, s1)"
    and r: "(case y of Some ms \<Rightarrow> Inr (Some ms, s1) | None \<Rightarrow> retry_loop e d n s1) = Inr (x, s')"
    by (auto simp: bindE_Inr_iff)
  show ?case
  proof (cases y)
    case None
    then show ?thesis using Suc.IH [of s1] r try_generate_mesh_frame [OF t] by simp
  next
    case (Some ms)
    then show ?thesis using r try_generate_mesh_frame [OF t] by simp
  qed
qed

lemma generate_with_fallback_frame:
  assumes "generate_with_fallback a e s = Inr (ms, s')"
  shows "file_name_xml_mesh s' = file_name_xml_mesh s \<and> fs s' = fs s"
proof -
  from assms obtain d where d: "distance_to_sphere s = Some d"
    by (cases "distance_to_sphere s") (auto simp: generate_with_fallback_def)
  from assms d obtain y s1 where
    r: "retry_loop e d (nat (mesh_generation_retries a + 1)) s = Inr (y, s1)"
    by (auto simp: generate_with_fallback_def bindE_Inr_iff)
  note f1 = retry_loop_frame [OF r]
  show ?thesis
  proof (cases y)
    case (Some ms')
    then show ?thesis using assms d r f1 by (simp add: generate_with_fallback_def bindE_def)
  next
    case None
    let ?alt = "Obj ''mesh_alternative'' [d]"
    let ?s2 = "(emit MeshGen (Call ''mesh_alternative'' [d]) s1)
                 \<lparr>distance_to_sphere := Some ?alt\<rparr>"
    from assms d r None obtain z where
      t: "try_generate_mesh e ?alt ?s2 = Inr (z, s')"
      by (auto simp: generate_with_fallback_def bindE_def call_def
               split: sum.splits option.splits)
    from try_generate_mesh_frame [OF t] f1 show ?thesis by (simp add: emit_def)
  qed
qed

text \<open>
  C1. Let the VTU file be absent and \<open>distance_to_sphere\<close> be \<open>d\<close>, and let \<open>n\<close> be
  \<open>mesh_generation_retries + 1\<close> (0 when that is negative, as \<open>range\<close> has it). In every
  case the step calls \<open>generate_mesh\<close> at most \<open>n + 1\<close> times. If the first \<open>j < n\<close> calls
  raise \<open>RuntimeError\<close> and the next one returns, there are exactly \<open>j + 1\<close> calls, all on
  \<open>d\<close>, and no call of \<open>mesh_alternative\<close>. If all \<open>n\<close> calls on \<open>d\<close> raise \<open>RuntimeError\<close>,
  the step calls \<open>mesh_alternative\<close> on \<open>d\<close> and then \<open>generate_mesh\<close> exactly once more,
  on the result; if that call raises \<open>RuntimeError\<close> too, the run exits with status
  \<open>- 1\<close> and the file system is as before, so no mesh was written. Whenever the step
  returns, the mesh and the remeshed surface it wrote have more than zero points.
\<close>

theorem mesh_generation_bounded_retries:
  assumes nofile: "\<not> isfile s (file_name_vtu_mesh (base_path_of (input_model a)))"
      and d: "distance_to_sphere s = Some d"
      and xml: "file_name_xml_mesh s = file_name_xml_mesh_of (base_path_of (input_model a))"
  shows "gm_calls (final_state (stage_mesh a e s))
           \<le> gm_calls s + nat (mesh_generation_retries a + 1) + 1
       \<and> (j < nat (mesh_generation_retries a + 1)
            \<and> (\<forall>k < j. generate_mesh e (gm_calls s + k) d = Raises_RuntimeError)
            \<and> generate_mesh e (gm_calls s + j) d = Returns m r
          \<longrightarrow> gm_calls (final_state (stage_mesh a e s)) = gm_calls s + j + 1
            \<and> (\<exists>es. trace (final_state (stage_mesh a e s))
                       = trace s @ replicate (j + 1) (MeshGen, Call ''generate_mesh'' [d]) @ es
                   \<and> list_all (\<lambda>ev. \<exists>p. ev = (MeshGen, Write p)) es)
            \<and> mesh (final_state (stage_mesh a e s)) = m)
       \<and> ((\<forall>k < nat (mesh_generation_retries a + 1).
              generate_mesh e (gm_calls s + k) d = Raises_RuntimeError)
          \<longrightarrow> gm_calls (final_state (stage_mesh a e s))
                = gm_calls s + nat (mesh_generation_retries a + 1) + 1
            \<and> (\<exists>es. trace (final_state (stage_mesh a e s))
                       = trace s
                         @ replicate (nat (mesh_generation_retries a + 1))
                             (MeshGen, Call ''generate_mesh'' [d])
                         @ [(MeshGen, Call ''mesh_alternative'' [d]),
                            (MeshGen, Call ''generate_mesh'' [Obj ''mesh_alternative'' [d]])]
                         @ es
                   \<and> list_all (\<lambda>ev. \<exists>p. ev = (MeshGen, Write p)) es)
            \<and> (generate_mesh e (gm_calls s + nat (mesh_generation_retries a + 1))
                  (Obj ''mesh_alternative'' [d]) = Raises_RuntimeError
                \<longrightarrow> (\<exists>s'. stage_mesh a e s = Inl (SystemExit (- 1), s') \<and> fs s' = fs s)))
       \<and> (\<forall>s'. stage_mesh a e s = Inr s'
            \<longrightarrow> GetNumberOfPoints e (mesh s') > 0
              \<and> fs s' (file_name_vtu_mesh (base_path_of (input_model a))) = Some (mesh s')
              \<and> (\<exists>r. fs s' (file_name_surface_name (base_path_of (input_model a))) = Some r
                      \<and> GetNumberOfPoints e r > 0))"
proof -
  let ?b = "base_path_of (input_model a)"
  let ?n = "nat (mesh_generation_retries a + 1)"
  let ?alt = "Obj ''mesh_alternative'' [d]"
  let ?ev = "(MeshGen, Call ''generate_mesh'' [d])"
  note ws = write_generated_mesh_result
  \<comment> \<open>what the step does once mesh and surface are there\<close>
  have after: "stage_mesh a e s =
      (if \<not> GetNumberOfPoints e m' > 0 \<or> \<not> GetNumberOfPoints e r' > 0
       then Inl (AssertionError, s1\<lparr>mesh := m'\<rparr>)
       else Inr (write_generated_mesh a r' (s1\<lparr>mesh := m'\<rparr>)))"
    if "generate_with_fallback a e s = Inr ((m', r'), s1)" for m' r' s1
    using nofile that by (simp add: stage_mesh_def Let_def bindE_def)
  have failed: "stage_mesh a e s = Inl x" if "generate_with_fallback a e s = Inl x" for x
    using nofile that by (simp add: stage_mesh_def Let_def bindE_def)
  \<comment> \<open>the end of the step after a successful generation\<close>
  have finished: "gm_calls (final_state (stage_mesh a e s)) = gm_calls s1
            \<and> (\<exists>es. trace (final_state (stage_mesh a e s)) = trace s1 @ es
                   \<and> list_all (\<lambda>ev. \<exists>p. ev = (MeshGen, Write p)) es)
            \<and> mesh (final_state (stage_mesh a e s)) = m'"
    if g: "generate_with_fallback a e s = Inr ((m', r'), s1)"
       and x: "file_name_xml_mesh s1 = file_name_xml_mesh s" for m' r' s1
  proof (cases "\<not> GetNumberOfPoints e m' > 0 \<or> \<not> GetNumberOfPoints e r' > 0")
    case True
    then show ?thesis using after [OF g] by (simp add: final_state_def)
  next
    case False
    have x': "file_name_xml_mesh (s1\<lparr>mesh := m'\<rparr>) = file_name_xml_mesh_of ?b"
      using x xml by simp
    show ?thesis
      using False after [OF g] ws(3,4,5) [OF x', of r'] by (simp add: final_state_def)
  qed
  \<comment> \<open>success at the attempt \<open>j\<close>\<close>
  have success: "gm_calls (final_state (stage_mesh a e s)) = gm_calls s + j + 1
            \<and> (\<exists>es. trace (final_state (stage_mesh a e s)) = trace s @ replicate (j + 1) ?ev @ es
                   \<and> list_all (\<lambda>ev. \<exists>p. ev = (MeshGen, Write p)) es)
            \<and> mesh (final_state (stage_mesh a e s)) = m"
    if j: "j < ?n" and f: "\<forall>k < j. generate_mesh e (gm_calls s + k) d = Raises_RuntimeError"
       and r: "generate_mesh e (gm_calls s + j) d = Returns m r"
  proof -
    have "generate_with_fallback a e s = Inr ((m, r), after_generate_calls (Suc j) d s)"
      using d retry_loop_success [OF j f r] by (simp add: generate_with_fallback_def bindE_def)
    from finished [OF this] show ?thesis by (simp add: after_generate_calls_def)
  qed
  \<comment> \<open>all attempts fail\<close>
  let ?s1 = "after_generate_calls ?n d s"
  let ?s2 = "(emit MeshGen (Call ''mesh_alternative'' [d]) ?s1)\<lparr>distance_to_sphere := Some ?alt\<rparr>"
  let ?s3 = "after_generate_calls 1 ?alt ?s2"
  have s3: "gm_calls ?s3 = gm_calls s + ?n + 1" "fs ?s3 = fs s"
       "trace ?s3 = trace s @ replicate ?n ?ev
                      @ [(MeshGen, Call ''mesh_alternative'' [d]),
                         (MeshGen, Call ''generate_mesh'' [?alt])]"
       "file_name_xml_mesh ?s3 = file_name_xml_mesh s"
    by (simp_all add: after_generate_calls_def emit_def)
  have fallback: "generate_with_fallback a e s =
      bindE (try_generate_mesh e ?alt ?s2)
        (\<lambda>(mesh_and_surface, s).
           case mesh_and_surface of Some ms \<Rightarrow> Inr (ms, s) | None \<Rightarrow> Inl (SystemExit (- 1), s))"
    if "\<forall>k < ?n. generate_mesh e (gm_calls s + k) d = Raises_RuntimeError"
    using d retry_loop_all_fail [OF that]
    by (simp add: generate_with_fallback_def bindE_def call_def)
  have c2: "gm_calls ?s2 = gm_calls s + ?n"
    by (simp add: after_generate_calls_def emit_def)
  have allfail: "gm_calls (final_state (stage_mesh a e s)) = gm_calls s + ?n + 1
            \<and> (\<exists>es. trace (final_state (stage_mesh a e s))
                       = trace s @ replicate ?n ?ev
                         @ [(MeshGen, Call ''mesh_alternative'' [d]),
                            (MeshGen, Call ''generate_mesh'' [?alt])] @ es
                   \<and> list_all (\<lambda>ev. \<exists>p. ev = (MeshGen, Write p)) es)
            \<and> (generate_mesh e (gm_calls s + ?n) ?alt = Raises_RuntimeError
                \<longrightarrow> (\<exists>s'. stage_mesh a e s = Inl (SystemExit (- 1), s') \<and> fs s' = fs s))"
    if f: "\<forall>k < ?n. generate_mesh e (gm_calls s + k) d = Raises_RuntimeError"
  proof (cases "generate_mesh e (gm_calls s + ?n) ?alt")
    case (Returns m' r')
    then have "generate_with_fallback a e s = Inr ((m', r'), ?s3)"
      using fallback [OF f] c2 by (simp add: try_generate_mesh_cases(2) bindE_def)
    from finished [OF this s3(4)] show ?thesis using Returns s3 by simp
  next
    case Raises_RuntimeError
    then have "generate_with_fallback a e s = Inl (SystemExit (- 1), ?s3)"
      using fallback [OF f] c2 by (simp add: try_generate_mesh_cases(1) bindE_def)
    from failed [OF this] show ?thesis using s3 by (simp add: final_state_def)
  next
    case Raises_other
    then have "generate_with_fallback a e s = Inl (UncaughtException, ?s3)"
      using fallback [OF f] c2 by (simp add: try_generate_mesh_cases(3) bindE_def)
    from failed [OF this] show ?thesis using s3 Raises_other by (simp add: final_state_def)
  qed
  \<comment> \<open>the bound on the number of calls\<close>
  have bound: "gm_calls (final_state (stage_mesh a e s)) \<le> gm_calls s + ?n + 1"
  proof (cases "generate_with_fallback a e s")
    case (Inl x)
    obtain err s1 where x: "x = (err, s1)" by (cases x)
    show ?thesis
      using failed [OF Inl] x generate_with_fallback_bound(2) [of a e s err s1] Inl
      by (simp add: final_state_def)
  next
    case (Inr y)
    obtain m' r' s1 where y: "y = ((m', r'), s1)" by (cases y) auto
    have le: "gm_calls s1 \<le> gm_calls s + ?n + 1"
      using generate_with_fallback_bound(1) [of a e s "(m', r')" s1] Inr y by simp
    have g: "generate_with_fallback a e s = Inr ((m', r'), s1)" using Inr y by simp
    show ?thesis
    proof (cases "\<not> GetNumberOfPoints e m' > 0 \<or> \<not> GetNumberOfPoints e r' > 0")
      case True
      then show ?thesis using after [OF g] le by (simp add: final_state_def)
    next
      case False
      then show ?thesis
        using after [OF g] le by (simp add: final_state_def write_generated_mesh_def
            write_mesh_def Let_def write_parameters_simps write_polydata_simps)
    qed
  qed
  \<comment> \<open>the assertions\<close>
  have asserted: "GetNumberOfPoints e (mesh s') > 0
              \<and> fs s' (file_name_vtu_mesh ?b) = Some (mesh s')
              \<and> (\<exists>r. fs s' (file_name_surface_name ?b) = Some r \<and> GetNumberOfPoints e r > 0)"
    if ret: "stage_mesh a e s = Inr s'" for s'
  proof (cases "generate_with_fallback a e s")
    case (Inl x)
    from failed [OF Inl] ret show ?thesis by simp
  next
    case (Inr y)
    obtain m' r' s1 where y: "y = ((m', r'), s1)" by (cases y) auto
    have g: "generate_with_fallback a e s = Inr ((m', r'), s1)" using Inr y by simp
    have pos: "GetNumberOfPoints e m' > 0" "GetNumberOfPoints e r' > 0"
      and s': "s' = write_generated_mesh a r' (s1\<lparr>mesh := m'\<rparr>)"
      using after [OF g] ret by (auto split: if_splits)
    have "file_name_xml_mesh s1 = file_name_xml_mesh s"
      using generate_with_fallback_frame [OF g] by simp
    then have x': "file_name_xml_mesh (s1\<lparr>mesh := m'\<rparr>) = file_name_xml_mesh_of ?b"
      using xml by simp
    show ?thesis
      using pos ws(1,2,3) [OF x', of r'] unfolding s' by simp
  qed
  show ?thesis using bound success allfail asserted by blast
qed
lemma example_base_path: "base_path_of (input_model default_params) = ''cases/model''"
  by (simp add: default_params_def base_path_of_def path_join_def before_last_sep_def
      case_name_of_def after_last_sep_def)

theorem mesh_generation_bounded_retries_witness:
  "\<not> isfile example_before_mesh (file_name_vtu_mesh (base_path_of (input_model default_params)))
   \<and> distance_to_sphere example_before_mesh = Some (Obj ''dist_sphere_diam'' [])
   \<and> file_name_xml_mesh example_before_mesh
       = file_name_xml_mesh_of (base_path_of (input_model default_params))
   \<and> (1 :: nat) < nat (mesh_generation_retries default_params + 1)
   \<and> generate_mesh (example_env 1) (gm_calls example_before_mesh + 0) (Obj ''dist_sphere_diam'' [])
       = Raises_RuntimeError
   \<and> generate_mesh (example_env 1) (gm_calls example_before_mesh + 1) (Obj ''dist_sphere_diam'' [])
       = Returns (Obj ''mesh'' [Obj ''dist_sphere_diam'' []])
           (Obj ''remeshed_surface'' [Obj ''dist_sphere_diam'' []])
   \<and> gm_calls (final_state (stage_mesh default_params (example_env 1) example_before_mesh)) = 2
   \<and> mesh (final_state (stage_mesh default_params (example_env 1) example_before_mesh))
       = Obj ''mesh'' [Obj ''dist_sphere_diam'' []]
   \<and> generate_mesh (example_env 4) 0 (Obj ''dist_sphere_diam'' []) = Raises_RuntimeError
   \<and> generate_mesh (example_env 4) 1 (Obj ''dist_sphere_diam'' []) = Raises_RuntimeError
   \<and> generate_mesh (example_env 4) 2 (Obj ''dist_sphere_diam'' []) = Raises_RuntimeError
   \<and> generate_mesh (example_env 4) 3 (Obj ''mesh_alternative'' [Obj ''dist_sphere_diam'' []])
       = Raises_RuntimeError
   \<and> gm_calls (final_state (stage_mesh default_params (example_env 4) example_before_mesh)) = 4
   \<and> (\<exists>s'. stage_mesh default_params (example_env 4) example_before_mesh
              = Inl (SystemExit (- 1), s')
          \<and> fs s' = fs example_before_mesh)"
proof -
  let ?d = "Obj ''dist_sphere_diam'' []"
  have h: "\<not> isfile example_before_mesh
               (file_name_vtu_mesh (base_path_of (input_model default_params)))"
      "distance_to_sphere example_before_mesh = Some ?d"
      "file_name_xml_mesh example_before_mesh
         = file_name_xml_mesh_of (base_path_of (input_model default_params))"
    by (simp_all add: example_base_path example_before_mesh_def initial_pp_def model_only_def
        isfile_def file_name_vtu_mesh_def file_name_xml_mesh_of_def)
  have c: "gm_calls example_before_mesh = 0"
          "nat (mesh_generation_retries default_params + 1) = 3"
    by (simp_all add: example_before_mesh_def initial_pp_def default_params_def)
  have lt: "\<forall>k < (3 :: nat). k < 4" by simp
  note one = mesh_generation_bounded_retries [OF h, where j = 1 and e = "example_env 1"
      and m = "Obj ''mesh'' [?d]" and r = "Obj ''remeshed_surface'' [?d]"]
  note four = mesh_generation_bounded_retries [OF h, where j = 0 and e = "example_env 4"
      and m = PyNone and r = PyNone]
  show ?thesis
    using one four h lt by (simp add: c example_env_def)
qed

subsection \<open>Facets outside the sphere become rigid wall\<close>

















end
